theory Spec2Isabelle
  imports Main "HOL-Library.Word" "HOL-Library.AList"
begin

section \<open>Errors and outcomes\<close>

text \<open>
  Go's \<open>error\<close> values that occur in the driver. A nil error is \<open>None :: error option\<close>.
  \<open>Errorf p e\<close> stands for \<open>fmt.Errorf(p + ": %w", e)\<close>; the wrapped value may be nil.
  \<open>BackOffError sc d\<close> carries the fields \<open>StatusCode\<close> and \<open>Duration\<close> (nanoseconds),
  \<open>RequestError sc st\<close> the fields \<open>StatusCode\<close> and \<open>Status\<close>.
\<close>

datatype error =
    ContextCanceled
  | NetError string
  | UrlError string error
  | ErrSyntax
  | ErrRange
  | NumError string string error
  | RuntimeError string
  | ErrCloseSent
  | ErrStreamSubscribed
  | wsMethodError int string
  | Errorf string "error option"
  | BackOffError int int
  | RequestError int string

text \<open>
  A call either returns, panics, or blocks for ever (a channel operation or a wait that
  nothing will ever complete).
\<close>

datatype 'a outcome = Returns 'a | Panics string | Blocks

section \<open>The REST client (package driver)\<close>

record url =
  Scheme :: string
  Host :: string
  Path :: string
  RawQuery :: string

record request =
  req_method :: string
  req_url :: url
  req_body :: "string option"

record response =
  StatusCode :: int
  Status :: string
  Header :: "(string \<times> string list) list"
  Body :: "string option"

text \<open>\<open>http.Header.Get\<close>: the first value stored under the key, or the empty string.\<close>

definition Header_Get :: "(string \<times> string list) list \<Rightarrow> string \<Rightarrow> string" where
  "Header_Get h k = (case map_of h k of Some (v # vs) \<Rightarrow> v | _ \<Rightarrow> [])"

text \<open>
  What \<open>http.Client.Do\<close> hands back: a response and a nil error, or an error (with a
  response only when a redirect policy failed).
\<close>

datatype do_result = DoResponse response | DoError "response option" error

text \<open>
  The world outside the client. \<open>NewRequestWithContext\<close> is the standard library's
  validation of method and URL (\<open>Some re\<close> when it refuses them); \<open>RoundTrip i req\<close> is
  what the network answers to the \<open>i\<close>-th request sent by one logical call.
\<close>

record env =
  NewRequestWithContext :: "string \<Rightarrow> url \<Rightarrow> error option"
  RoundTrip :: "nat \<Rightarrow> request \<Rightarrow> do_result"

text \<open>
  The caller's context. \<open>cancel_at = Some k\<close>: the context is cancelled while the
  \<open>k\<close>-th request (counting from 0) is in flight; \<open>None\<close>: it stays live.
\<close>

record Context =
  cancel_at :: "nat option"

definition ctx_done :: "Context \<Rightarrow> nat \<Rightarrow> bool" where
  "ctx_done ctx i = (case cancel_at ctx of None \<Rightarrow> False | Some k \<Rightarrow> k \<le> i)"

text \<open>
  \<open>c.Client.Do(req)\<close> for a request built with the context: once the context is done the
  call fails with the context's error wrapped in a \<open>*url.Error\<close>.
\<close>

definition Client_Do :: "env \<Rightarrow> Context \<Rightarrow> nat \<Rightarrow> request \<Rightarrow> do_result" where
  "Client_Do E ctx i req =
     (if ctx_done ctx i then DoError None (UrlError (Host (req_url req)) ContextCanceled)
      else RoundTrip E i req)"

record Client =
  Hosts :: "string list"

text \<open>The named results \<open>(resp, err)\<close> after the assignment \<open>resp, err = c.Client.Do(req)\<close>.\<close>

fun results_of :: "do_result \<Rightarrow> response option \<times> error option" where
  "results_of (DoResponse r) = (Some r, None)"
| "results_of (DoError ro e) = (ro, Some e)"

text \<open>The loop leaves by \<open>break\<close> exactly when this is false.\<close>

fun retryable :: "do_result \<Rightarrow> bool" where
  "retryable (DoResponse r) = (\<not> StatusCode r < 500)"
| "retryable (DoError ro e) = True"

definition mk_request :: "string \<Rightarrow> url \<Rightarrow> string option \<Rightarrow> string \<Rightarrow> request" where
  "mk_request method u body ep =
     \<lparr>req_method = method, req_url = u\<lparr>Host := ep\<rparr>, req_body = body\<rparr>"

text \<open>
  The \<open>for _, ep := range c.Hosts\<close> loop of \<open>tryRequest\<close>. The state is the pair of named
  results and the list of requests handed to \<open>Do\<close> so far.
\<close>

fun tryRequest_loop ::
  "env \<Rightarrow> Context \<Rightarrow> string \<Rightarrow> url \<Rightarrow> string option \<Rightarrow> string list \<Rightarrow>
   response option \<times> error option \<times> request list \<Rightarrow>
   response option \<times> error option \<times> request list" where
  "tryRequest_loop E ctx method u body [] st = st"
| "tryRequest_loop E ctx method u body (ep # eps) (resp, err, sent) =
     (case NewRequestWithContext E method (u\<lparr>Host := ep\<rparr>) of
        Some re \<Rightarrow> (None, Some (Errorf ''client Get'' err), sent)
      | None \<Rightarrow>
          (let req = mk_request method u body ep;
               d = Client_Do E ctx (length sent) req;
               sent' = sent @ [req]
           in if \<not> retryable d then (fst (results_of d), snd (results_of d), sent')
              else tryRequest_loop E ctx method u body eps
                     (fst (results_of d), snd (results_of d), sent')))"

definition tryRequest ::
  "env \<Rightarrow> Context \<Rightarrow> Client \<Rightarrow> string \<Rightarrow> url \<Rightarrow> string option \<Rightarrow>
   response option \<times> error option \<times> request list" where
  "tryRequest E ctx c method u body =
     tryRequest_loop E ctx method u body (Hosts c) (None, None, [])"

text \<open>\<open>Get\<close>; \<open>q\<close> is the encoded query, \<open>values.Encode()\<close>.\<close>

definition Get ::
  "env \<Rightarrow> Context \<Rightarrow> Client \<Rightarrow> string \<Rightarrow> string \<Rightarrow>
   response option \<times> error option \<times> request list" where
  "Get E ctx c path q =
     tryRequest E ctx c ''GET'' \<lparr>Scheme = ''https'', Host = [], Path = path, RawQuery = q\<rparr> None"

text \<open>Vocabulary for statements about \<open>Get\<close>: the request built for a host, whether the
  standard library accepts it, and what the \<open>i\<close>-th attempt on a host yields.\<close>

definition Get_request :: "string \<Rightarrow> string \<Rightarrow> string \<Rightarrow> request" where
  "Get_request path q ep =
     mk_request ''GET'' \<lparr>Scheme = ''https'', Host = [], Path = path, RawQuery = q\<rparr> None ep"

definition Get_buildable :: "env \<Rightarrow> string \<Rightarrow> string \<Rightarrow> string \<Rightarrow> bool" where
  "Get_buildable E path q ep =
     (NewRequestWithContext E ''GET'' \<lparr>Scheme = ''https'', Host = ep, Path = path, RawQuery = q\<rparr> = None)"

definition Get_attempt :: "env \<Rightarrow> Context \<Rightarrow> string \<Rightarrow> string \<Rightarrow> nat \<Rightarrow> string \<Rightarrow> do_result" where
  "Get_attempt E ctx path q i ep = Client_Do E ctx i (Get_request path q ep)"

section \<open>The market-data client (package binance, market.go)\<close>

subsection \<open>\<open>strconv.Atoi\<close> with a 64-bit \<open>int\<close>\<close>

definition is_digit :: "char \<Rightarrow> bool" where
  "is_digit c = (48 \<le> (of_char c :: nat) \<and> (of_char c :: nat) \<le> 57)"

definition digit_val :: "char \<Rightarrow> nat" where
  "digit_val c = of_char c - 48"

text \<open>
  The digit loop of \<open>ParseUint(s, 10, 64)\<close>: a byte that is no digit is a syntax error,
  a value beyond \<open>2^64 - 1\<close> a range error, whichever comes first from the left.
\<close>

fun ParseUint_loop :: "nat \<Rightarrow> string \<Rightarrow> error + nat" where
  "ParseUint_loop n [] = Inr n"
| "ParseUint_loop n (c # cs) =
     (if \<not> is_digit c then Inl ErrSyntax
      else if n \<ge> 1844674407370955162 then Inl ErrRange
      else if n * 10 + digit_val c > 18446744073709551615 then Inl ErrRange
      else ParseUint_loop (n * 10 + digit_val c) cs)"

definition ParseUint :: "string \<Rightarrow> error + nat" where
  "ParseUint s = (if s = [] then Inl ErrSyntax else ParseUint_loop 0 s)"

definition ParseInt :: "string \<Rightarrow> error + int" where
  "ParseInt s =
     (if s = [] then Inl ErrSyntax
      else
        let neg = (hd s = CHR ''-'');
            s' = (if hd s = CHR ''+'' \<or> hd s = CHR ''-'' then tl s else s)
        in case ParseUint s' of
             Inl e \<Rightarrow> Inl e
           | Inr un \<Rightarrow>
               if \<not> neg \<and> un \<ge> 9223372036854775808 then Inl ErrRange
               else if neg \<and> un > 9223372036854775808 then Inl ErrRange
               else Inr (if neg then - int un else int un))"

definition Atoi :: "string \<Rightarrow> error + int" where
  "Atoi s = (case ParseInt s of Inl e \<Rightarrow> Inl (NumError ''Atoi'' s e) | Inr i \<Rightarrow> Inr i)"

subsection \<open>Durations\<close>

text \<open>\<open>time.Duration\<close> is an \<open>int64\<close> count of nanoseconds; its arithmetic wraps.\<close>

definition wrap64 :: "int \<Rightarrow> int" where
  "wrap64 x = (x + 9223372036854775808) mod 18446744073709551616 - 9223372036854775808"

definition Second :: int where
  "Second = 1000000000"

definition Duration_mul :: "int \<Rightarrow> int \<Rightarrow> int" where
  "Duration_mul a b = wrap64 (a * b)"

subsection \<open>The global back-off \<open>WaitGroup\<close> and its timers\<close>

text \<open>
  \<open>now\<close> is a logical clock in nanoseconds, \<open>IPBackOff\<close> the counter of the global
  \<open>sync.WaitGroup\<close>, \<open>timers\<close> the deadlines at which a pending
  \<open>time.AfterFunc(dt, IPBackOff.Done)\<close> will call \<open>Done\<close>, earliest first.
\<close>

record world =
  now :: int
  IPBackOff :: nat
  timers :: "int list"

definition WaitGroup_Add1 :: "world \<Rightarrow> world" where
  "WaitGroup_Add1 W = W\<lparr>IPBackOff := Suc (IPBackOff W)\<rparr>"

definition AfterFunc_Done :: "int \<Rightarrow> world \<Rightarrow> world" where
  "AfterFunc_Done dt W = W\<lparr>timers := insort (now W + dt) (timers W)\<rparr>"

text \<open>
  \<open>IPBackOff.Wait()\<close>: returns at once when the counter is zero; otherwise the clock
  runs on, each timer that fires takes one off the counter, and the call returns when the
  counter reaches zero. With a positive counter and no timer left it never returns.
\<close>

fun Wait_loop :: "int \<Rightarrow> nat \<Rightarrow> int list \<Rightarrow> (int \<times> nat \<times> int list) option" where
  "Wait_loop t 0 ts = Some (t, 0, ts)"
| "Wait_loop t (Suc c) [] = None"
| "Wait_loop t (Suc c) (d # ds) = Wait_loop (max t d) c ds"

definition Wait :: "world \<Rightarrow> world option" where
  "Wait W =
     (case Wait_loop (now W) (IPBackOff W) (timers W) of
        None \<Rightarrow> None
      | Some (t, c, ts) \<Rightarrow> Some (W\<lparr>now := t, IPBackOff := c, timers := ts\<rparr>))"

subsection \<open>\<open>GetJSON\<close>\<close>

text \<open>
  The two codecs \<open>GetJSON\<close> calls: \<open>encodeFormData\<close> (the schema encoder, giving the
  encoded query) and the JSON decoder run on the body, of which only the returned error
  is kept.
\<close>

record 'd codec =
  encodeFormData :: "'d \<Rightarrow> error + string"
  Decode :: "string option \<Rightarrow> error option"

record MarketData =
  client :: Client

definition GetJSON ::
  "env \<Rightarrow> 'd codec \<Rightarrow> world \<Rightarrow> Context \<Rightarrow> MarketData \<Rightarrow> string \<Rightarrow> 'd \<Rightarrow>
   (error option) outcome \<times> world" where
  "GetJSON E K W ctx m path data =
     (case encodeFormData K data of
        Inl err \<Rightarrow> (Returns (Some (Errorf ''binance'' (Some err))), W)
      | Inr values \<Rightarrow>
          (case Wait W of
             None \<Rightarrow> (Blocks, W)
           | Some W1 \<Rightarrow>
               (case Get E ctx (client m) path values of
                  (resp, Some err, sent) \<Rightarrow> (Returns (Some (Errorf ''binance'' (Some err))), W1)
                | (None, None, sent) \<Rightarrow> (Panics ''nil pointer dereference'', W1)
                | (Some resp, None, sent) \<Rightarrow>
                    if StatusCode resp = 200 \<and> Body resp \<noteq> None
                    then (Returns (Decode K (Body resp)), W1)
                    else if StatusCode resp = 429 \<or> StatusCode resp = 418
                    then (case Atoi (Header_Get (Header resp) ''Retry-After'') of
                            Inl err \<Rightarrow>
                              (Returns (Some (Errorf ''binance Retry-After header'' (Some err))), W1)
                          | Inr i \<Rightarrow>
                              (let dt = Duration_mul i Second
                               in (Returns (Some (BackOffError (StatusCode resp) dt)),
                                   AfterFunc_Done dt (WaitGroup_Add1 W1))))
                    else (Returns (Some (RequestError (StatusCode resp) (Status resp))), W1))))"

section \<open>The combined-stream transport (package binance, stream.go)\<close>

text \<open>
  The embedding follows the version of \<open>stream.go\<close> whose subscribers are
  \<open>driver.JSONHandler\<close> values. Go's \<open>uint\<close> is taken at 64 bits. The mutex \<open>qmtx\<close> makes
  \<open>popResponseChan\<close> and \<open>addReponseChan\<close> atomic, so each is one step on the state; the
  rate limiter only delays and is left out.
\<close>

type_synonym uint = "64 word"

datatype panic_value = PanicError error | PanicValue string

text \<open>
  A call returns a value and a state, or is parked for ever in a channel operation, or
  panics; the state reached is kept in every case.
\<close>

datatype ('r, 's) exec = Ok 'r 's | Stuck 's | Panic panic_value 's

record wsMethodResponse =
  resp_ID :: uint
  resp_Result :: "string option"
  resp_Error :: "error option"

record wsMethodRequest =
  req_Method :: string
  req_Params :: "string list"
  req_ID :: uint

record streamMessage =
  msg_Error :: "error option"
  msg_ID :: uint
  msg_Result :: "string option"
  msg_Stream :: string
  msg_Data :: string

text \<open>
  A \<open>driver.JSONHandler\<close>: an identity and, for each of its two methods, whether the
  call panics and with what value. Every call is recorded in the state.
\<close>

record JSONHandler =
  hid :: nat
  Event_panics :: "string \<Rightarrow> panic_value option"
  Done_panics :: "panic_value option"

datatype hcall = EventCall nat string | DoneCall nat

text \<open>
  The websocket connection as far as the stream uses it: what \<open>Close\<close> and \<open>WriteJSON\<close>
  return, the frames handed to \<open>WriteJSON\<close>, and whether \<open>Close\<close> was called.
\<close>

record Conn =
  Close_result :: "error option"
  WriteJSON_result :: "wsMethodRequest \<Rightarrow> error option"
  writes :: "wsMethodRequest list"
  closed :: bool

text \<open>
  \<open>ctx_err\<close> is \<open>s.ctx.Err()\<close>. \<open>handlers\<close> is the \<open>sync.Map\<close> as an association list.
  \<open>queue\<close> is the buffered channel of capacity 64 with its closed flag. Reply channels
  (\<open>make(chan wsMethodResponse, 1)\<close>) live in \<open>chans\<close>, addressed by numbers handed out from
  \<open>next_chan\<close>. \<open>calls\<close> records the handler methods invoked, \<open>logged\<close> the log messages.
\<close>

record Stream =
  ctx_err :: "error option"
  conn :: Conn
  handlers :: "(string \<times> JSONHandler) list"
  wg :: nat
  queue :: "wsMethodRequest list"
  queue_closed :: bool
  qid :: uint
  qrc :: "uint \<rightharpoonup> nat"
  chans :: "nat \<Rightarrow> wsMethodResponse list"
  next_chan :: nat
  calls :: "hcall list"
  logged :: "string list"

text \<open>The state \<open>NewStream\<close> returns on a successful dial, after \<open>s.wg.Add(2)\<close>.\<close>

definition NewStream :: "Conn \<Rightarrow> Stream" where
  "NewStream c =
     \<lparr>ctx_err = None, conn = c, handlers = [], wg = 2, queue = [], queue_closed = False,
      qid = 0, qrc = Map.empty, chans = (\<lambda>a. []), next_chan = 0, calls = [], logged = []\<rparr>"

definition log_msg :: "string \<Rightarrow> Stream \<Rightarrow> Stream" where
  "log_msg m s = s\<lparr>logged := logged s @ [m]\<rparr>"

definition cancel :: "Stream \<Rightarrow> Stream" where
  "cancel s = (if ctx_err s = None then s\<lparr>ctx_err := Some ContextCanceled\<rparr> else s)"

subsection \<open>Reply channels\<close>

definition make_chan :: "Stream \<Rightarrow> nat \<times> Stream" where
  "make_chan s =
     (next_chan s, s\<lparr>chans := (chans s)(next_chan s := []), next_chan := Suc (next_chan s)\<rparr>)"

text \<open>A send on a reply channel: it has room for one value; a second send would park.\<close>

definition chan_send :: "nat \<Rightarrow> wsMethodResponse \<Rightarrow> Stream \<Rightarrow> Stream option" where
  "chan_send rc r s = (if chans s rc = [] then Some (s\<lparr>chans := (chans s)(rc := [r])\<rparr>) else None)"

subsection \<open>The correlator\<close>

definition popResponseChan :: "Stream \<Rightarrow> uint \<Rightarrow> nat option \<times> Stream" where
  "popResponseChan s i =
     (case qrc s i of
        Some rc \<Rightarrow> (Some rc, s\<lparr>qrc := (qrc s)(i := None)\<rparr>)
      | None \<Rightarrow> (None, s))"

definition addReponseChan :: "Stream \<Rightarrow> nat \<Rightarrow> uint \<times> Stream" where
  "addReponseChan s rc =
     (let i = qid s + 1 in (i, s\<lparr>qid := i, qrc := (qrc s)(i \<mapsto> rc)\<rparr>))"

definition sendErrResponse :: "Stream \<Rightarrow> uint \<Rightarrow> error option \<Rightarrow> (unit, Stream) exec" where
  "sendErrResponse s reqID err =
     (case popResponseChan s reqID of
        (Some rc, s') \<Rightarrow>
          (case chan_send rc \<lparr>resp_ID = reqID, resp_Result = None, resp_Error = err\<rparr> s' of
             Some s'' \<Rightarrow> Ok () s''
           | None \<Rightarrow> Stuck s')
      | (None, s') \<Rightarrow> Ok () s')"

definition addQueue :: "Stream \<Rightarrow> wsMethodRequest \<Rightarrow> (nat, Stream) exec" where
  "addQueue s msg =
     (let (rc, s1) = make_chan s in
      if ctx_err s1 \<noteq> None
      then (case chan_send rc \<lparr>resp_ID = 0, resp_Result = None, resp_Error = Some ErrCloseSent\<rparr> s1 of
              Some s2 \<Rightarrow> Ok rc s2
            | None \<Rightarrow> Stuck s1)
      else
        (let (i, s2) = addReponseChan s1 rc in
         if queue_closed s2 then Panic (PanicError (RuntimeError ''send on closed channel'')) s2
         else if length (queue s2) < 64 then Ok rc (s2\<lparr>queue := queue s2 @ [msg\<lparr>req_ID := i\<rparr>]\<rparr>)
         else Stuck s2))"

text \<open>The ids handed out by successive calls of \<open>addReponseChan\<close>, one per reply channel.\<close>

fun addReponseChan_ids :: "Stream \<Rightarrow> nat list \<Rightarrow> uint list" where
  "addReponseChan_ids s [] = []"
| "addReponseChan_ids s (rc # rcs) =
     fst (addReponseChan s rc) # addReponseChan_ids (snd (addReponseChan s rc)) rcs"

subsection \<open>Shutdown\<close>

text \<open>\<open>for msg := range s.queue \{ s.sendErrResponse(msg.ID, err) \}\<close> on the closed queue.\<close>

fun drain :: "error option \<Rightarrow> wsMethodRequest list \<Rightarrow> Stream \<Rightarrow> (unit, Stream) exec" where
  "drain err [] s = Ok () s"
| "drain err (msg # msgs) s =
     (case sendErrResponse (s\<lparr>queue := msgs\<rparr>) (req_ID msg) err of
        Ok u s' \<Rightarrow> drain err msgs s'
      | Stuck s' \<Rightarrow> Stuck s'
      | Panic x s' \<Rightarrow> Panic x s')"

text \<open>\<open>s.handlers.Range\<close> calling \<open>handler.Done()\<close> on every entry.\<close>

fun Range_Done :: "(string \<times> JSONHandler) list \<Rightarrow> Stream \<Rightarrow> (unit, Stream) exec" where
  "Range_Done [] s = Ok () s"
| "Range_Done ((k, h) # hs) s =
     (let s' = s\<lparr>calls := calls s @ [DoneCall (hid h)]\<rparr>
      in case Done_panics h of
           Some x \<Rightarrow> Panic x s'
         | None \<Rightarrow> Range_Done hs s')"

definition close :: "Stream \<Rightarrow> (unit, Stream) exec" where
  "close s =
     (let s1 = cancel s in
      if queue_closed s1 then Panic (PanicError (RuntimeError ''close of closed channel'')) s1
      else
        (let s2 = s1\<lparr>queue_closed := True\<rparr>;
             err = Close_result (conn s2);
             s3 = log_msg ''stream closed'' (s2\<lparr>conn := (conn s2)\<lparr>closed := True\<rparr>\<rparr>)
         in case drain err (queue s3) s3 of
              Ok u s4 \<Rightarrow> Range_Done (handlers s4) s4
            | Stuck s' \<Rightarrow> Stuck s'
            | Panic x s' \<Rightarrow> Panic x s'))"

subsection \<open>Deferred calls\<close>

definition wg_Done :: "Stream \<Rightarrow> (unit, Stream) exec" where
  "wg_Done s =
     (if wg s = 0 then Panic (PanicValue ''sync: negative WaitGroup counter'') s
      else Ok () (s\<lparr>wg := wg s - 1\<rparr>))"

text \<open>\<open>defer s.wg.Done()\<close>: runs when the function returns or panics, not while it is parked.\<close>

fun defer_wg_Done :: "(unit, Stream) exec \<Rightarrow> (unit, Stream) exec" where
  "defer_wg_Done (Ok u s) = wg_Done s"
| "defer_wg_Done (Stuck s) = Stuck s"
| "defer_wg_Done (Panic x s) =
     (case wg_Done s of Ok u s' \<Rightarrow> Panic x s' | Stuck s' \<Rightarrow> Stuck s' | Panic y s' \<Rightarrow> Panic y s')"

subsection \<open>The sender\<close>

text \<open>
  The \<open>work\<close> loop of \<open>sendQueue\<close>. When the context is done and a message is queued, both
  cases of the \<open>select\<close> are ready and Go picks one at random: \<open>sel i\<close> says whether
  iteration \<open>i\<close> takes the message.
\<close>

fun sendQueue_loop ::
  "(nat \<Rightarrow> bool) \<Rightarrow> nat \<Rightarrow> wsMethodRequest list \<Rightarrow> Stream \<Rightarrow> (unit, Stream) exec" where
  "sendQueue_loop sel i [] s = (if ctx_err s \<noteq> None then Ok () s else Stuck s)"
| "sendQueue_loop sel i (msg # msgs) s =
     (if ctx_err s \<noteq> None \<and> \<not> sel i then Ok () s
      else
        (let s1 = s\<lparr>queue := msgs\<rparr> in
         if ctx_err s1 \<noteq> None then Ok () s1
         else
           (let err = WriteJSON_result (conn s1) msg;
                s2 = log_msg ''websocket send'' (s1\<lparr>conn := (conn s1)\<lparr>writes := writes (conn s1) @ [msg]\<rparr>\<rparr>)
            in case err of
                 None \<Rightarrow> sendQueue_loop sel (Suc i) msgs s2
               | Some e \<Rightarrow>
                   sendErrResponse s2 (req_ID msg) (Some (Errorf ''binance stream send'' (Some e))))))"

definition sendQueue :: "(nat \<Rightarrow> bool) \<Rightarrow> Stream \<Rightarrow> (unit, Stream) exec" where
  "sendQueue sel s =
     defer_wg_Done
       (case sendQueue_loop sel 0 (queue s) s of
          Ok u s' \<Rightarrow> close s'
        | Stuck s' \<Rightarrow> Stuck s'
        | Panic x s' \<Rightarrow> Panic x s')"

subsection \<open>The listener\<close>

text \<open>\<open>handler.Event(data)\<close>.\<close>

definition Event :: "JSONHandler \<Rightarrow> string \<Rightarrow> Stream \<Rightarrow> (unit, Stream) exec" where
  "Event h d s =
     (let s' = s\<lparr>calls := calls s @ [EventCall (hid h) d]\<rparr>
      in case Event_panics h d of
           Some x \<Rightarrow> Panic x s'
         | None \<Rightarrow> Ok () s')"

text \<open>
  The body of \<open>dispatch\<close> below its deferred calls. \<open>U\<close> is \<open>json.Unmarshal\<close> into a
  \<open>streamMessage\<close>.
\<close>

definition dispatch_body ::
  "(string \<Rightarrow> error + streamMessage) \<Rightarrow> Stream \<Rightarrow> string \<Rightarrow> (unit, Stream) exec" where
  "dispatch_body U s data =
     (case U data of
        Inl err \<Rightarrow> Panic (PanicError (Errorf ''stream.dispatch'' (Some err))) s
      | Inr msg \<Rightarrow>
          (case msg_Error msg of
             Some e \<Rightarrow>
               (if msg_ID msg \<noteq> 0 then sendErrResponse s (msg_ID msg) (Some e)
                else Ok () (log_msg ''protocol error in dispatch'' s))
           | None \<Rightarrow>
               if msg_ID msg \<noteq> 0
               then (case popResponseChan s (msg_ID msg) of
                       (Some c, s') \<Rightarrow>
                         (case chan_send c \<lparr>resp_ID = msg_ID msg, resp_Result = msg_Result msg,
                                            resp_Error = None\<rparr> s' of
                            Some s'' \<Rightarrow> Ok () s''
                          | None \<Rightarrow> Stuck s')
                     | (None, s') \<Rightarrow>
                         Ok () (log_msg ''unknown request ID in method response dispatch'' s'))
               else (case (if msg_Stream msg \<noteq> [] then map_of (handlers s) (msg_Stream msg) else None) of
                       Some handler \<Rightarrow> Event handler (msg_Data msg) s
                     | None \<Rightarrow> Ok () (log_msg ''unhandeled message in dispatch'' s))))"

text \<open>
  The deferred \<open>recover\<close> of \<open>dispatch\<close>: a panic value that is an \<open>error\<close> is logged and the
  function returns; any other value is logged at panic level, which panics again.
\<close>

fun dispatch_recover :: "(unit, Stream) exec \<Rightarrow> (unit, Stream) exec" where
  "dispatch_recover (Ok u s) = Ok u s"
| "dispatch_recover (Stuck s) = Stuck s"
| "dispatch_recover (Panic (PanicError err) s) = Ok () (log_msg ''dispatch panic recover'' s)"
| "dispatch_recover (Panic (PanicValue v) s) =
     Panic (PanicValue ''re-panic in dispatch recover'') (log_msg ''re-panic in dispatch recover'' s)"

definition dispatch ::
  "(string \<Rightarrow> error + streamMessage) \<Rightarrow> Stream \<Rightarrow> string \<Rightarrow> (unit, Stream) exec" where
  "dispatch U s data = defer_wg_Done (dispatch_recover (dispatch_body U (log_msg [] s) data))"

text \<open>
  The loop of \<open>listen\<close> over what \<open>ReadMessage\<close> returns, frame by frame. Each frame is
  handed to \<open>go s.dispatch(data)\<close>; the tasks are run in arrival order, each to its end.
  A parked task leaves the listener running; a task that panics takes the process down.
  With nothing more to read the listener is parked in \<open>ReadMessage\<close>.
\<close>

fun listen ::
  "(string \<Rightarrow> error + streamMessage) \<Rightarrow> (error + string) list \<Rightarrow> Stream \<Rightarrow> (unit, Stream) exec" where
  "listen U [] s = Stuck s"
| "listen U (Inl err # rest) s = defer_wg_Done (Ok () (cancel (log_msg ''websocket receive'' s)))"
| "listen U (Inr data # rest) s =
     (case dispatch U (s\<lparr>wg := Suc (wg s)\<rparr>) data of
        Ok u s' \<Rightarrow> listen U rest s'
      | Stuck s' \<Rightarrow> listen U rest s'
      | Panic x s' \<Rightarrow> Panic x s')"

subsection \<open>Method calls, \<open>Subscribe\<close> and \<open>Unsubscribe\<close>\<close>

text \<open>
  \<open><-rc\<close>: the value in the channel if there is one; otherwise the caller is parked while
  the other tasks of the stream run (\<open>run\<close> is what they do to the state), and takes the
  value they leave, or stays parked if they leave none.
\<close>

definition recv :: "(Stream \<Rightarrow> Stream) \<Rightarrow> nat \<Rightarrow> Stream \<Rightarrow> (wsMethodResponse, Stream) exec" where
  "recv run rc s =
     (case chans s rc of
        r # rs \<Rightarrow> Ok r (s\<lparr>chans := (chans s)(rc := rs)\<rparr>)
      | [] \<Rightarrow>
          (let s' = run s
           in case chans s' rc of
                r # rs \<Rightarrow> Ok r (s'\<lparr>chans := (chans s')(rc := rs)\<rparr>)
              | [] \<Rightarrow> Stuck s'))"

text \<open>\<open>resp := <-s.addQueue(msg)\<close>.\<close>

definition methodCall ::
  "(Stream \<Rightarrow> Stream) \<Rightarrow> Stream \<Rightarrow> wsMethodRequest \<Rightarrow> (wsMethodResponse, Stream) exec" where
  "methodCall run s msg =
     (case addQueue s msg of
        Ok rc s1 \<Rightarrow> recv run rc s1
      | Stuck s1 \<Rightarrow> Stuck s1
      | Panic x s1 \<Rightarrow> Panic x s1)"

definition Subscribe ::
  "(Stream \<Rightarrow> Stream) \<Rightarrow> Stream \<Rightarrow> string \<Rightarrow> JSONHandler \<Rightarrow> (error option, Stream) exec" where
  "Subscribe run s stream handler =
     (case map_of (handlers s) stream of
        Some actual \<Rightarrow> Ok (Some ErrStreamSubscribed) s
      | None \<Rightarrow>
          (case methodCall run (s\<lparr>handlers := handlers s @ [(stream, handler)]\<rparr>)
                  \<lparr>req_Method = ''SUBSCRIBE'', req_Params = [stream], req_ID = 0\<rparr> of
             Ok resp s2 \<Rightarrow>
               (case resp_Error resp of
                  Some e \<Rightarrow>
                    Ok (Some (Errorf ''stream.Subscribe'' (Some e)))
                       (s2\<lparr>handlers := AList.delete stream (handlers s2)\<rparr>)
                | None \<Rightarrow> Ok None s2)
           | Stuck s' \<Rightarrow> Stuck s'
           | Panic x s' \<Rightarrow> Panic x s'))"

definition Unsubscribe ::
  "(Stream \<Rightarrow> Stream) \<Rightarrow> Stream \<Rightarrow> string \<Rightarrow> (error option, Stream) exec" where
  "Unsubscribe run s stream =
     (case methodCall run s \<lparr>req_Method = ''UNSUBSCRIBE'', req_Params = [stream], req_ID = 0\<rparr> of
        Ok resp s2 \<Rightarrow>
          (case resp_Error resp of
             Some e \<Rightarrow> Ok (Some (Errorf ''stream.Unsubscribe'' (Some e))) s2
           | None \<Rightarrow>
               (case map_of (handlers s2) stream of
                  Some handler \<Rightarrow>
                    (let s3 = s2\<lparr>handlers := AList.delete stream (handlers s2),
                                 calls := calls s2 @ [DoneCall (hid handler)]\<rparr>
                     in case Done_panics handler of
                          Some x \<Rightarrow> Panic x s3
                        | None \<Rightarrow> Ok None s3)
                | None \<Rightarrow> Ok None s2))
      | Stuck s' \<Rightarrow> Stuck s'
      | Panic x s' \<Rightarrow> Panic x s')"

text \<open>The requests \<open>Subscribe\<close> and \<open>Unsubscribe\<close> hand to \<open>addQueue\<close>.\<close>

definition subscribe_req :: "string \<Rightarrow> wsMethodRequest" where
  "subscribe_req stream = \<lparr>req_Method = ''SUBSCRIBE'', req_Params = [stream], req_ID = 0\<rparr>"

definition unsubscribe_req :: "string \<Rightarrow> wsMethodRequest" where
  "unsubscribe_req stream = \<lparr>req_Method = ''UNSUBSCRIBE'', req_Params = [stream], req_ID = 0\<rparr>"

definition failover_hosts :: "string list" where
  "failover_hosts = [''tja'', ''foo'', ''api2.binance.com'', ''api3.binance.com'']"

definition ok_response :: response where
  "ok_response = \<lparr>StatusCode = 200, Status = ''200 OK'', Header = [], Body = Some ''{}''\<rparr>"

definition failover_env :: env where
  "failover_env =
     \<lparr>NewRequestWithContext = (\<lambda>m u. None),
      RoundTrip = (\<lambda>i req.
        if Host (req_url req) = ''tja'' \<or> Host (req_url req) = ''foo''
        then DoError None (UrlError (Host (req_url req)) (NetError ''no such host''))
        else DoResponse ok_response)\<rparr>"

definition live :: Context where
  "live = \<lparr>cancel_at = None\<rparr>"

definition canceled :: Context where
  "canceled = \<lparr>cancel_at = Some 0\<rparr>"

definition apiHosts :: "string list" where
  "apiHosts = [''api.binance.com'', ''api1.binance.com'', ''api2.binance.com'', ''api3.binance.com'']"

definition binance_md :: MarketData where
  "binance_md = \<lparr>client = \<lparr>Hosts = apiHosts\<rparr>\<rparr>"

definition plain_codec :: "unit codec" where
  "plain_codec = \<lparr>encodeFormData = (\<lambda>d. Inr []), Decode = (\<lambda>b. None)\<rparr>"

definition idle_world :: world where
  "idle_world = \<lparr>now = 0, IPBackOff = 0, timers = []\<rparr>"

text \<open>A server that answers every request with 429 and the given \<open>Retry-After\<close> header.\<close>

definition limited_response :: "string \<Rightarrow> response" where
  "limited_response ra =
     \<lparr>StatusCode = 429, Status = ''429 Too Many Requests'',
      Header = [(''Retry-After'', [ra])], Body = Some []\<rparr>"

definition limiting_env :: "string \<Rightarrow> env" where
  "limiting_env ra =
     \<lparr>NewRequestWithContext = (\<lambda>m u. None),
      RoundTrip = (\<lambda>i req. DoResponse (limited_response ra))\<rparr>"

definition quiet_conn :: Conn where
  "quiet_conn = \<lparr>Close_result = None, WriteJSON_result = (\<lambda>m. None), writes = [], closed = False\<rparr>"

definition state_of :: "('r, 's) exec \<Rightarrow> 's" where
  "state_of x = (case x of Ok r s \<Rightarrow> s | Stuck s \<Rightarrow> s | Panic p s \<Rightarrow> s)"

text \<open>A new stream on which three method calls have been enqueued and none sent yet.\<close>

definition three_queued :: Stream where
  "three_queued =
     state_of (addQueue (state_of (addQueue (state_of (addQueue (NewStream quiet_conn)
       (subscribe_req ''a''))) (subscribe_req ''b''))) (subscribe_req ''c''))"

text \<open>
  Handlers after the repository's tests: \<open>panicHandler\<close>, whose \<open>Event\<close> is \<open>panic("foo")\<close>,
  a handler whose \<open>Event\<close> panics with an error, and a handler that returns.
\<close>

definition panicHandler :: JSONHandler where
  "panicHandler = \<lparr>hid = 0, Event_panics = (\<lambda>d. Some (PanicValue ''foo'')), Done_panics = None\<rparr>"

definition failingHandler :: JSONHandler where
  "failingHandler =
     \<lparr>hid = 2, Event_panics = (\<lambda>d. Some (PanicError (RuntimeError ''index out of range''))),
      Done_panics = None\<rparr>"

definition testHandler :: JSONHandler where
  "testHandler = \<lparr>hid = 1, Event_panics = (\<lambda>d. None), Done_panics = None\<rparr>"

text \<open>A decoder for frames that are pushes: the frame names its channel.\<close>

definition push_unmarshal :: "string \<Rightarrow> error + streamMessage" where
  "push_unmarshal d =
     Inr \<lparr>msg_Error = None, msg_ID = 0, msg_Result = None, msg_Stream = d, msg_Data = ''[]''\<rparr>"

text \<open>
  What the listener does while a caller waits for the reply to request 1: it dispatches
  the server's answer, an error or a plain result.
\<close>

definition error_reply :: "Stream \<Rightarrow> Stream" where
  "error_reply s =
     state_of (dispatch
       (\<lambda>d. Inr \<lparr>msg_Error = Some (wsMethodError 2 ''Invalid request''), msg_ID = 1,
                  msg_Result = None, msg_Stream = [], msg_Data = []\<rparr>)
       (s\<lparr>wg := Suc (wg s)\<rparr>) [])"

definition result_reply :: "Stream \<Rightarrow> Stream" where
  "result_reply s =
     state_of (dispatch
       (\<lambda>d. Inr \<lparr>msg_Error = None, msg_ID = 1,
                  msg_Result = None, msg_Stream = [], msg_Data = []\<rparr>)
       (s\<lparr>wg := Suc (wg s)\<rparr>) [])"

section \<open>Properties of the REST client\<close>

subsection \<open>The host loop\<close>

lemma loop_prefix:
  "\<exists>n\<le>length eps. snd (snd (tryRequest_loop E ctx m u b eps (resp, err, sent))) =
      sent @ map (mk_request m u b) (take n eps)"
proof (induction eps arbitrary: resp err sent)
  case Nil
  then show ?case by simp
next
  case (Cons ep eps)
  show ?case
  proof (cases "NewRequestWithContext E m (u\<lparr>Host := ep\<rparr>)")
    case (Some re)
    then have "snd (snd (tryRequest_loop E ctx m u b (ep # eps) (resp, err, sent))) =
        sent @ map (mk_request m u b) (take 0 (ep # eps))" by simp
    then show ?thesis by blast
  next
    case None
    let ?req = "mk_request m u b ep"
    let ?d = "Client_Do E ctx (length sent) ?req"
    show ?thesis
    proof (cases "retryable ?d")
      case False
      with None have "snd (snd (tryRequest_loop E ctx m u b (ep # eps) (resp, err, sent))) =
        sent @ map (mk_request m u b) (take (Suc 0) (ep # eps))" by (simp add: Let_def)
      moreover have "Suc 0 \<le> length (ep # eps)" by simp
      ultimately show ?thesis by blast
    next
      case True
      from Cons.IH [of "fst (results_of ?d)" "snd (results_of ?d)" "sent @ [?req]"]
      obtain n where n: "n \<le> length eps"
        "snd (snd (tryRequest_loop E ctx m u b eps (fst (results_of ?d), snd (results_of ?d), sent @ [?req]))) =
          (sent @ [?req]) @ map (mk_request m u b) (take n eps)" by blast
      with None True have "snd (snd (tryRequest_loop E ctx m u b (ep # eps) (resp, err, sent))) =
        sent @ map (mk_request m u b) (take (Suc n) (ep # eps))" by (simp add: Let_def)
      moreover have "Suc n \<le> length (ep # eps)" using n by simp
      ultimately show ?thesis by blast
    qed
  qed
qed

lemma loop_stop:
  assumes "k < length eps"
    and "\<forall>j\<le>k. NewRequestWithContext E m (u\<lparr>Host := eps ! j\<rparr>) = None"
    and "\<forall>j<k. retryable (Client_Do E ctx (length sent + j) (mk_request m u b (eps ! j)))"
    and "\<not> retryable (Client_Do E ctx (length sent + k) (mk_request m u b (eps ! k)))"
  shows "tryRequest_loop E ctx m u b eps (resp, err, sent) =
     (fst (results_of (Client_Do E ctx (length sent + k) (mk_request m u b (eps ! k)))),
      snd (results_of (Client_Do E ctx (length sent + k) (mk_request m u b (eps ! k)))),
      sent @ map (mk_request m u b) (take (Suc k) eps))"
  using assms
proof (induction eps arbitrary: resp err sent k)
  case Nil
  then show ?case by simp
next
  case (Cons ep eps)
  from Cons.prems(2) have b0: "NewRequestWithContext E m (u\<lparr>Host := ep\<rparr>) = None"
    by (metis le0 nth_Cons_0)
  show ?case
  proof (cases k)
    case 0
    with Cons.prems b0 show ?thesis by (simp add: Let_def)
  next
    case (Suc k')
    let ?req = "mk_request m u b ep"
    let ?d = "Client_Do E ctx (length sent) ?req"
    from Cons.prems(3) Suc have r0: "retryable ?d"
      by (metis add.right_neutral nth_Cons_0 zero_less_Suc)
    have 1: "k' < length eps" using Cons.prems(1) Suc by simp
    have 2: "\<forall>j\<le>k'. NewRequestWithContext E m (u\<lparr>Host := eps ! j\<rparr>) = None"
      using Cons.prems(2) Suc by (metis Suc_le_mono nth_Cons_Suc)
    have 3: "\<forall>j<k'. retryable (Client_Do E ctx (length (sent @ [?req]) + j) (mk_request m u b (eps ! j)))"
    proof (intro allI impI)
      fix j assume "j < k'"
      then have "Suc j < k" using Suc by simp
      with Cons.prems(3) have "retryable (Client_Do E ctx (length sent + Suc j) (mk_request m u b ((ep # eps) ! Suc j)))"
        by blast
      then show "retryable (Client_Do E ctx (length (sent @ [?req]) + j) (mk_request m u b (eps ! j)))"
        by simp
    qed
    have 4: "\<not> retryable (Client_Do E ctx (length (sent @ [?req]) + k') (mk_request m u b (eps ! k')))"
      using Cons.prems(4) Suc by simp
    from Cons.IH [OF 1 2 3 4, of "fst (results_of ?d)" "snd (results_of ?d)"]
    show ?thesis using b0 r0 Suc by (simp add: Let_def)
  qed
qed

lemma loop_exhaust:
  assumes "eps \<noteq> []"
    and "\<forall>j<length eps. NewRequestWithContext E m (u\<lparr>Host := eps ! j\<rparr>) = None \<and>
           retryable (Client_Do E ctx (length sent + j) (mk_request m u b (eps ! j)))"
  shows "tryRequest_loop E ctx m u b eps (resp, err, sent) =
     (fst (results_of (Client_Do E ctx (length sent + (length eps - 1)) (mk_request m u b (last eps)))),
      snd (results_of (Client_Do E ctx (length sent + (length eps - 1)) (mk_request m u b (last eps)))),
      sent @ map (mk_request m u b) eps)"
  using assms
proof (induction eps arbitrary: resp err sent)
  case Nil
  then show ?case by simp
next
  case (Cons ep eps)
  let ?req = "mk_request m u b ep"
  let ?d = "Client_Do E ctx (length sent) ?req"
  from Cons.prems(2) have b0: "NewRequestWithContext E m (u\<lparr>Host := ep\<rparr>) = None" and r0: "retryable ?d"
    by force+
  show ?case
  proof (cases "eps = []")
    case True
    with b0 r0 show ?thesis by (simp add: Let_def)
  next
    case False
    have 2: "\<forall>j<length eps. NewRequestWithContext E m (u\<lparr>Host := eps ! j\<rparr>) = None \<and>
           retryable (Client_Do E ctx (length (sent @ [?req]) + j) (mk_request m u b (eps ! j)))"
    proof (intro allI impI)
      fix j assume "j < length eps"
      then have "Suc j < length (ep # eps)" by simp
      with Cons.prems(2) have "NewRequestWithContext E m (u\<lparr>Host := (ep # eps) ! Suc j\<rparr>) = None \<and>
           retryable (Client_Do E ctx (length sent + Suc j) (mk_request m u b ((ep # eps) ! Suc j)))"
        by blast
      then show "NewRequestWithContext E m (u\<lparr>Host := eps ! j\<rparr>) = None \<and>
           retryable (Client_Do E ctx (length (sent @ [?req]) + j) (mk_request m u b (eps ! j)))"
        by simp
    qed
    have ar: "Suc (length sent + (length eps - Suc 0)) = length sent + length eps"
      using False by (cases eps) simp_all
    from Cons.IH [OF False 2, of "fst (results_of ?d)" "snd (results_of ?d)"] False
    show ?thesis using b0 r0 by (simp add: Let_def ar)
  qed
qed

text \<open>
  Claim C1. \<open>Get\<close> walks the hosts in their order. If the first \<open>k\<close> attempts each end in
  an error or a status of 500 or more and attempt \<open>k\<close> yields a response with a status below
  500, \<open>Get\<close> returns that response with a nil error after exactly \<open>k + 1\<close> requests, one
  to each of the first \<open>k + 1\<close> hosts. If every attempt ends in an error or a status of 500 or
  more, every host is tried once and the response and error of the last attempt are
  returned. In every run the requests sent go to a prefix of the host list, in order.
\<close>

theorem C1_Get_failover:
  "(\<forall>k r. k < length (Hosts c) \<and>
          (\<forall>i\<le>k. Get_buildable E path q (Hosts c ! i)) \<and>
          (\<forall>i<k. retryable (Get_attempt E ctx path q i (Hosts c ! i))) \<and>
          Get_attempt E ctx path q k (Hosts c ! k) = DoResponse r \<and> StatusCode r < 500 \<longrightarrow>
          Get E ctx c path q = (Some r, None, map (Get_request path q) (take (Suc k) (Hosts c)))) \<and>
   (Hosts c \<noteq> [] \<and>
    (\<forall>i<length (Hosts c). Get_buildable E path q (Hosts c ! i) \<and>
        retryable (Get_attempt E ctx path q i (Hosts c ! i))) \<longrightarrow>
    Get E ctx c path q =
      (fst (results_of (Get_attempt E ctx path q (length (Hosts c) - 1) (last (Hosts c)))),
       snd (results_of (Get_attempt E ctx path q (length (Hosts c) - 1) (last (Hosts c)))),
       map (Get_request path q) (Hosts c))) \<and>
   (\<exists>n\<le>length (Hosts c).
      snd (snd (Get E ctx c path q)) = map (Get_request path q) (take n (Hosts c)))"
proof (intro conjI allI impI)
  fix k r
  assume a: "k < length (Hosts c) \<and>
          (\<forall>i\<le>k. Get_buildable E path q (Hosts c ! i)) \<and>
          (\<forall>i<k. retryable (Get_attempt E ctx path q i (Hosts c ! i))) \<and>
          Get_attempt E ctx path q k (Hosts c ! k) = DoResponse r \<and> StatusCode r < 500"
  let ?u = "\<lparr>Scheme = ''https'', Host = [], Path = path, RawQuery = q\<rparr>"
  have 1: "k < length (Hosts c)" using a by blast
  have 2: "\<forall>j\<le>k. NewRequestWithContext E ''GET'' (?u\<lparr>Host := Hosts c ! j\<rparr>) = None"
    using a by (simp add: Get_buildable_def)
  have 3: "\<forall>j<k. retryable (Client_Do E ctx (length ([]::request list) + j) (mk_request ''GET'' ?u None (Hosts c ! j)))"
    using a by (simp add: Get_attempt_def Get_request_def)
  have d: "Client_Do E ctx (length ([]::request list) + k) (mk_request ''GET'' ?u None (Hosts c ! k)) = DoResponse r"
    using a by (simp add: Get_attempt_def Get_request_def)
  have 4: "\<not> retryable (Client_Do E ctx (length ([]::request list) + k) (mk_request ''GET'' ?u None (Hosts c ! k)))"
    using a d by simp
  from loop_stop [OF 1 2 3 4, of None None] d
  show "Get E ctx c path q = (Some r, None, map (Get_request path q) (take (Suc k) (Hosts c)))"
    by (simp add: Get_def tryRequest_def Get_request_def [abs_def])
next
  assume a: "Hosts c \<noteq> [] \<and>
    (\<forall>i<length (Hosts c). Get_buildable E path q (Hosts c ! i) \<and>
        retryable (Get_attempt E ctx path q i (Hosts c ! i)))"
  let ?u = "\<lparr>Scheme = ''https'', Host = [], Path = path, RawQuery = q\<rparr>"
  have 1: "Hosts c \<noteq> []" using a by blast
  have 2: "\<forall>j<length (Hosts c). NewRequestWithContext E ''GET'' (?u\<lparr>Host := Hosts c ! j\<rparr>) = None \<and>
           retryable (Client_Do E ctx (length ([]::request list) + j) (mk_request ''GET'' ?u None (Hosts c ! j)))"
    using a by (simp add: Get_buildable_def Get_attempt_def Get_request_def)
  from loop_exhaust [OF 1 2, of None None]
  show "Get E ctx c path q =
      (fst (results_of (Get_attempt E ctx path q (length (Hosts c) - 1) (last (Hosts c)))),
       snd (results_of (Get_attempt E ctx path q (length (Hosts c) - 1) (last (Hosts c)))),
       map (Get_request path q) (Hosts c))"
    by (simp add: Get_def tryRequest_def Get_attempt_def Get_request_def [abs_def])
next
  let ?u = "\<lparr>Scheme = ''https'', Host = [], Path = path, RawQuery = q\<rparr>"
  from loop_prefix [of "Hosts c" E ctx "''GET''" ?u None None None "[]"]
  show "\<exists>n\<le>length (Hosts c).
      snd (snd (Get E ctx c path q)) = map (Get_request path q) (take n (Hosts c))"
    by (simp add: Get_def tryRequest_def Get_request_def [abs_def])
qed

text \<open>
  The four hosts of the repository's test "success after fails": two unreachable hosts,
  then a host answering 200. Three requests are sent. With only the two unreachable
  hosts, the last error comes back.
\<close>

theorem C1_Get_failover_witness:
  "Get failover_env live \<lparr>Hosts = failover_hosts\<rparr> ''api/v3/ping'' [] =
     (Some ok_response, None,
      [Get_request ''api/v3/ping'' [] ''tja'', Get_request ''api/v3/ping'' [] ''foo'',
       Get_request ''api/v3/ping'' [] ''api2.binance.com'']) \<and>
   Get failover_env live \<lparr>Hosts = [''tja'', ''foo'']\<rparr> ''api/v3/ping'' [] =
     (None, Some (UrlError ''foo'' (NetError ''no such host'')),
      [Get_request ''api/v3/ping'' [] ''tja'', Get_request ''api/v3/ping'' [] ''foo''])"
proof
  have h: "2 < length (Hosts \<lparr>Hosts = failover_hosts\<rparr>) \<and>
          (\<forall>i\<le>2. Get_buildable failover_env ''api/v3/ping'' [] (Hosts \<lparr>Hosts = failover_hosts\<rparr> ! i)) \<and>
          (\<forall>i<2. retryable (Get_attempt failover_env live ''api/v3/ping'' [] i (Hosts \<lparr>Hosts = failover_hosts\<rparr> ! i))) \<and>
          Get_attempt failover_env live ''api/v3/ping'' [] 2 (Hosts \<lparr>Hosts = failover_hosts\<rparr> ! 2) = DoResponse ok_response \<and>
          StatusCode ok_response < 500"
    by (simp add: failover_hosts_def Get_buildable_def failover_env_def Get_attempt_def
        Client_Do_def ctx_done_def live_def Get_request_def mk_request_def ok_response_def
        less_Suc_eq numeral_2_eq_2)
  from C1_Get_failover [of "\<lparr>Hosts = failover_hosts\<rparr>" failover_env "''api/v3/ping''" "[]" live] h
  have "Get failover_env live \<lparr>Hosts = failover_hosts\<rparr> ''api/v3/ping'' [] =
     (Some ok_response, None, map (Get_request ''api/v3/ping'' []) (take (Suc 2) (Hosts \<lparr>Hosts = failover_hosts\<rparr>)))"
    by blast
  then show "Get failover_env live \<lparr>Hosts = failover_hosts\<rparr> ''api/v3/ping'' [] =
     (Some ok_response, None,
      [Get_request ''api/v3/ping'' [] ''tja'', Get_request ''api/v3/ping'' [] ''foo'',
       Get_request ''api/v3/ping'' [] ''api2.binance.com''])"
    by (simp add: failover_hosts_def)
next
  have h: "Hosts \<lparr>Hosts = [''tja'', ''foo'']\<rparr> \<noteq> [] \<and>
    (\<forall>i<length (Hosts \<lparr>Hosts = [''tja'', ''foo'']\<rparr>).
        Get_buildable failover_env ''api/v3/ping'' [] (Hosts \<lparr>Hosts = [''tja'', ''foo'']\<rparr> ! i) \<and>
        retryable (Get_attempt failover_env live ''api/v3/ping'' [] i (Hosts \<lparr>Hosts = [''tja'', ''foo'']\<rparr> ! i)))"
    by (simp add: Get_buildable_def failover_env_def Get_attempt_def
        Client_Do_def ctx_done_def live_def Get_request_def mk_request_def less_Suc_eq)
  from C1_Get_failover [of "\<lparr>Hosts = [''tja'', ''foo'']\<rparr>" failover_env "''api/v3/ping''" "[]" live] h
  have "Get failover_env live \<lparr>Hosts = [''tja'', ''foo'']\<rparr> ''api/v3/ping'' [] =
      (fst (results_of (Get_attempt failover_env live ''api/v3/ping'' [] (length (Hosts \<lparr>Hosts = [''tja'', ''foo'']\<rparr>) - 1) (last (Hosts \<lparr>Hosts = [''tja'', ''foo'']\<rparr>)))),
       snd (results_of (Get_attempt failover_env live ''api/v3/ping'' [] (length (Hosts \<lparr>Hosts = [''tja'', ''foo'']\<rparr>) - 1) (last (Hosts \<lparr>Hosts = [''tja'', ''foo'']\<rparr>)))),
       map (Get_request ''api/v3/ping'' []) (Hosts \<lparr>Hosts = [''tja'', ''foo'']\<rparr>))"
    by blast
  then show "Get failover_env live \<lparr>Hosts = [''tja'', ''foo'']\<rparr> ''api/v3/ping'' [] =
     (None, Some (UrlError ''foo'' (NetError ''no such host'')),
      [Get_request ''api/v3/ping'' [] ''tja'', Get_request ''api/v3/ping'' [] ''foo''])"
    by (simp add: Get_attempt_def failover_env_def Client_Do_def ctx_done_def live_def
        Get_request_def mk_request_def)
qed

subsection \<open>Cancellation\<close>

text \<open>
  Claim C3 says that a cancelled context stops the host loop at once, with no further
  host attempted. The loop never looks at the context: a cancelled context only makes
  \<open>Do\<close> fail, and a failed \<open>Do\<close> moves on to the next host. With the context cancelled
  during the first of four attempts, all four hosts receive a request.
\<close>

theorem C3_cancel_counterexample:
  "Get failover_env canceled \<lparr>Hosts = failover_hosts\<rparr> ''api/v3/ping'' [] =
     (None, Some (UrlError ''api3.binance.com'' ContextCanceled),
      [Get_request ''api/v3/ping'' [] ''tja'', Get_request ''api/v3/ping'' [] ''foo'',
       Get_request ''api/v3/ping'' [] ''api2.binance.com'',
       Get_request ''api/v3/ping'' [] ''api3.binance.com'']) \<and>
   length (snd (snd (Get failover_env canceled \<lparr>Hosts = failover_hosts\<rparr> ''api/v3/ping'' []))) \<noteq> 1"
  by (simp add: Get_def tryRequest_def failover_env_def canceled_def failover_hosts_def
      Client_Do_def ctx_done_def Get_request_def mk_request_def)

text \<open>
  Claim C3, amended. When the context is cancelled during attempt \<open>k\<close> (and the loop
  reaches that attempt), that attempt and every later one fail with the cancellation
  error, every host of the list still receives one request, and the error returned is the
  cancellation error of the attempt on the last host.
\<close>

theorem C3_cancel_runs_through_hosts:
  assumes "cancel_at ctx = Some k"
    and "k < length (Hosts c)"
    and "\<forall>i<length (Hosts c). Get_buildable E path q (Hosts c ! i)"
    and "\<forall>i<k. retryable (Get_attempt E ctx path q i (Hosts c ! i))"
  shows "Get E ctx c path q =
           (None, Some (UrlError (last (Hosts c)) ContextCanceled),
            map (Get_request path q) (Hosts c))"
proof -
  let ?u = "\<lparr>Scheme = ''https'', Host = [], Path = path, RawQuery = q\<rparr>"
  have ne: "Hosts c \<noteq> []" using assms(2) by auto
  have late: "Get_attempt E ctx path q i ep = DoError None (UrlError ep ContextCanceled)"
    if "k \<le> i" for i ep
    using that assms(1)
    by (simp add: Get_attempt_def Client_Do_def ctx_done_def Get_request_def mk_request_def)
  have all: "\<forall>j<length (Hosts c).
      NewRequestWithContext E ''GET'' (?u\<lparr>Host := Hosts c ! j\<rparr>) = None \<and>
      retryable (Client_Do E ctx (length ([]::request list) + j) (mk_request ''GET'' ?u None (Hosts c ! j)))"
  proof (intro allI impI)
    fix j assume j: "j < length (Hosts c)"
    have b: "NewRequestWithContext E ''GET'' (?u\<lparr>Host := Hosts c ! j\<rparr>) = None"
      using assms(3) j by (simp add: Get_buildable_def)
    have r: "retryable (Get_attempt E ctx path q j (Hosts c ! j))"
    proof (cases "j < k")
      case True
      with assms(4) show ?thesis by blast
    next
      case False
      then have "k \<le> j" by simp
      from late [OF this] show ?thesis by simp
    qed
    from b r show "NewRequestWithContext E ''GET'' (?u\<lparr>Host := Hosts c ! j\<rparr>) = None \<and>
      retryable (Client_Do E ctx (length ([]::request list) + j) (mk_request ''GET'' ?u None (Hosts c ! j)))"
      by (simp add: Get_attempt_def Get_request_def)
  qed
  have lastk: "k \<le> length (Hosts c) - 1" using assms(2) by simp
  from loop_exhaust [OF ne all, of None None] late [OF lastk, of "last (Hosts c)"]
  show ?thesis
    by (simp add: Get_def tryRequest_def Get_attempt_def Get_request_def [abs_def])
qed

theorem C3_cancel_runs_through_hosts_witness:
  "cancel_at \<lparr>cancel_at = Some 1\<rparr> = Some 1 \<and>
   1 < length (Hosts \<lparr>Hosts = failover_hosts\<rparr>) \<and>
   Get failover_env \<lparr>cancel_at = Some 1\<rparr> \<lparr>Hosts = failover_hosts\<rparr> ''api/v3/ping'' [] =
     (None, Some (UrlError ''api3.binance.com'' ContextCanceled),
      map (Get_request ''api/v3/ping'' []) failover_hosts)"
proof -
  have 1: "cancel_at \<lparr>cancel_at = Some 1\<rparr> = Some 1" by simp
  have 2: "1 < length (Hosts \<lparr>Hosts = failover_hosts\<rparr>)" by (simp add: failover_hosts_def)
  have 3: "\<forall>i<length (Hosts \<lparr>Hosts = failover_hosts\<rparr>).
      Get_buildable failover_env ''api/v3/ping'' [] (Hosts \<lparr>Hosts = failover_hosts\<rparr> ! i)"
    by (simp add: Get_buildable_def failover_env_def)
  have 4: "\<forall>i<1. retryable (Get_attempt failover_env \<lparr>cancel_at = Some 1\<rparr> ''api/v3/ping'' [] i
      (Hosts \<lparr>Hosts = failover_hosts\<rparr> ! i))"
    by (simp add: Get_attempt_def Client_Do_def ctx_done_def failover_env_def failover_hosts_def
        Get_request_def mk_request_def)
  from C3_cancel_runs_through_hosts [OF 1 2 3 4] 1 2 show ?thesis
    by (simp add: failover_hosts_def)
qed

section \<open>Properties of the market-data client\<close>

subsection \<open>The back-off gate and durations\<close>

lemma Wait_loop_counter: "Wait_loop t c ts = Some (t', c', ts') \<Longrightarrow> c' = 0"
  by (induction t c ts rule: Wait_loop.induct) auto

lemma Wait_counter: "Wait W = Some W1 \<Longrightarrow> IPBackOff W1 = 0"
  by (auto simp: Wait_def split: option.splits dest: Wait_loop_counter)

lemma Wait_idle: "IPBackOff W = 0 \<Longrightarrow> Wait W = Some W"
  by (simp add: Wait_def)

lemma wrap64_id:
  "- 9223372036854775808 \<le> x \<Longrightarrow> x < 9223372036854775808 \<Longrightarrow> wrap64 x = x"
  by (simp add: wrap64_def)

lemma Duration_seconds:
  "- 9223372036 \<le> n \<Longrightarrow> n \<le> 9223372036 \<Longrightarrow> Duration_mul n Second = n * Second"
  by (simp add: Duration_mul_def Second_def wrap64_id)

subsection \<open>Rate-limit responses\<close>

text \<open>
  Claim C2 says that for every integer \<open>n\<close> parsed from \<open>Retry-After\<close> the error carries a
  \<open>Duration\<close> of \<open>n\<close> seconds and the gate is armed for that long. The duration is
  \<open>time.Duration(i) * time.Second\<close>, a 64-bit product: for \<open>n = 9223372037\<close> it wraps to a
  negative number of nanoseconds, which is what the error carries and what the timer is
  started with.
\<close>

theorem C2_overflow_counterexample:
  "Atoi (Header_Get (Header (limited_response ''9223372037'')) ''Retry-After'') = Inr 9223372037 \<and>
   GetJSON (limiting_env ''9223372037'') plain_codec idle_world live binance_md ''/api/v3/depth'' () =
     (Returns (Some (BackOffError 429 (- 9223372036709551616))),
      \<lparr>now = 0, IPBackOff = 1, timers = [- 9223372036709551616]\<rparr>) \<and>
   BackOffError 429 (- 9223372036709551616) \<noteq> BackOffError 429 (9223372037 * Second)"
  by (simp add: GetJSON_def Get_def tryRequest_def limiting_env_def limited_response_def
      plain_codec_def idle_world_def live_def binance_md_def apiHosts_def Client_Do_def
      ctx_done_def mk_request_def Wait_def Header_Get_def Atoi_def ParseInt_def ParseUint_def
      is_digit_def digit_val_def Duration_mul_def wrap64_def Second_def WaitGroup_Add1_def
      AfterFunc_Done_def)

text \<open>
  Claim C2, amended. For a response with status 429 or 418 whose \<open>Retry-After\<close> header
  parses as an integer \<open>n\<close> with \<open>-9223372036 \<le> n \<le> 9223372036\<close> (so that \<open>n\<close> seconds is a
  64-bit count of nanoseconds), \<open>GetJSON\<close> returns a \<open>BackOffError\<close> whose \<open>StatusCode\<close> is
  the response's status and whose \<open>Duration\<close> is \<open>n\<close> seconds, adds one to the global
  \<open>WaitGroup\<close> and starts a timer that releases it \<open>n\<close> seconds from now; a later \<open>Wait\<close>
  returns when that timer has fired.
\<close>

theorem C2_backoff_armed:
  assumes "encodeFormData K data = Inr values"
    and "Wait W = Some W1"
    and "Get E ctx (client m) path values = (Some resp, None, sent)"
    and "StatusCode resp = 429 \<or> StatusCode resp = 418"
    and "Atoi (Header_Get (Header resp) ''Retry-After'') = Inr n"
    and "- 9223372036 \<le> n" and "n \<le> 9223372036"
  shows "GetJSON E K W ctx m path data =
           (Returns (Some (BackOffError (StatusCode resp) (n * Second))),
            W1\<lparr>IPBackOff := 1, timers := insort (now W1 + n * Second) (timers W1)\<rparr>) \<and>
         (timers W1 = [] \<longrightarrow>
            Wait (snd (GetJSON E K W ctx m path data)) =
              Some (W1\<lparr>now := max (now W1) (now W1 + n * Second), IPBackOff := 0, timers := []\<rparr>))"
proof -
  have c0: "IPBackOff W1 = 0" using assms(2) by (rule Wait_counter)
  have dt: "Duration_mul n Second = n * Second" using assms(6,7) by (rule Duration_seconds)
  have ne: "StatusCode resp \<noteq> 200" using assms(4) by auto
  have g: "GetJSON E K W ctx m path data =
           (Returns (Some (BackOffError (StatusCode resp) (n * Second))),
            W1\<lparr>IPBackOff := 1, timers := insort (now W1 + n * Second) (timers W1)\<rparr>)"
    using assms(1,2,3,4,5) ne
    by (simp add: GetJSON_def dt c0 WaitGroup_Add1_def AfterFunc_Done_def Let_def)
  have w: "timers W1 = [] \<longrightarrow>
            Wait (snd (GetJSON E K W ctx m path data)) =
              Some (W1\<lparr>now := max (now W1) (now W1 + n * Second), IPBackOff := 0, timers := []\<rparr>)"
    by (simp add: g Wait_def)
  from g w show ?thesis by blast
qed

theorem C2_backoff_armed_witness:
  "Atoi (Header_Get (Header (limited_response ''2'')) ''Retry-After'') = Inr 2 \<and>
   GetJSON (limiting_env ''2'') plain_codec idle_world live binance_md ''/api/v3/depth'' () =
     (Returns (Some (BackOffError 429 2000000000)),
      \<lparr>now = 0, IPBackOff = 1, timers = [2000000000]\<rparr>) \<and>
   Wait \<lparr>now = 0, IPBackOff = 1, timers = [2000000000]\<rparr> =
     Some \<lparr>now = 2000000000, IPBackOff = 0, timers = []\<rparr>"
proof -
  have 1: "encodeFormData plain_codec () = Inr []" by (simp add: plain_codec_def)
  have 2: "Wait idle_world = Some idle_world" by (simp add: Wait_def idle_world_def)
  have 3: "Get (limiting_env ''2'') live (client binance_md) ''/api/v3/depth'' [] =
      (Some (limited_response ''2''), None, [Get_request ''/api/v3/depth'' [] ''api.binance.com''])"
    by (simp add: Get_def tryRequest_def limiting_env_def limited_response_def live_def
        binance_md_def apiHosts_def Client_Do_def ctx_done_def Get_request_def)
  have 4: "StatusCode (limited_response ''2'') = 429 \<or> StatusCode (limited_response ''2'') = 418"
    by (simp add: limited_response_def)
  have 5: "Atoi (Header_Get (Header (limited_response ''2'')) ''Retry-After'') = Inr 2"
    by (simp add: limited_response_def Header_Get_def Atoi_def ParseInt_def ParseUint_def
        is_digit_def digit_val_def)
  have 6: "- 9223372036 \<le> (2::int)" and 7: "(2::int) \<le> 9223372036" by simp_all
  from C2_backoff_armed [OF 1 2 3 4 5 6 7] 5 show ?thesis
    by (simp add: idle_world_def limited_response_def Second_def Wait_def)
qed

text \<open>
  Claim C10. For a response with status 429 or 418 whose \<open>Retry-After\<close> header does not
  parse, \<open>GetJSON\<close> returns the wrapped parse error, not a \<open>BackOffError\<close>; the gate is left
  as \<open>Wait\<close> found it, with a zero counter, and a following \<open>Wait\<close> returns at once.
\<close>

theorem C10_unparsable_retry_after:
  assumes "encodeFormData K data = Inr values"
    and "Wait W = Some W1"
    and "Get E ctx (client m) path values = (Some resp, None, sent)"
    and "StatusCode resp = 429 \<or> StatusCode resp = 418"
    and "Atoi (Header_Get (Header resp) ''Retry-After'') = Inl e"
  shows "GetJSON E K W ctx m path data =
           (Returns (Some (Errorf ''binance Retry-After header'' (Some e))), W1) \<and>
         IPBackOff W1 = 0 \<and> Wait W1 = Some W1"
proof -
  have c0: "IPBackOff W1 = 0" using assms(2) by (rule Wait_counter)
  have ne: "StatusCode resp \<noteq> 200" using assms(4) by auto
  have g: "GetJSON E K W ctx m path data =
           (Returns (Some (Errorf ''binance Retry-After header'' (Some e))), W1)"
    using assms ne by (simp add: GetJSON_def)
  from g c0 Wait_idle [OF c0] show ?thesis by blast
qed

theorem C10_unparsable_retry_after_witness:
  "GetJSON (limiting_env ''soon'') plain_codec idle_world live binance_md ''/api/v3/depth'' () =
     (Returns (Some (Errorf ''binance Retry-After header''
        (Some (NumError ''Atoi'' ''soon'' ErrSyntax)))), idle_world) \<and>
   IPBackOff idle_world = 0 \<and> Wait idle_world = Some idle_world"
proof -
  have 1: "encodeFormData plain_codec () = Inr []" by (simp add: plain_codec_def)
  have 2: "Wait idle_world = Some idle_world" by (simp add: Wait_def idle_world_def)
  have 3: "Get (limiting_env ''soon'') live (client binance_md) ''/api/v3/depth'' [] =
      (Some (limited_response ''soon''), None, [Get_request ''/api/v3/depth'' [] ''api.binance.com''])"
    by (simp add: Get_def tryRequest_def limiting_env_def limited_response_def live_def
        binance_md_def apiHosts_def Client_Do_def ctx_done_def Get_request_def)
  have 4: "StatusCode (limited_response ''soon'') = 429 \<or> StatusCode (limited_response ''soon'') = 418"
    by (simp add: limited_response_def)
  have 5: "Atoi (Header_Get (Header (limited_response ''soon'')) ''Retry-After'') =
      Inl (NumError ''Atoi'' ''soon'' ErrSyntax)"
    by (simp add: limited_response_def Header_Get_def Atoi_def ParseInt_def ParseUint_def
        is_digit_def digit_val_def)
  from C10_unparsable_retry_after [OF 1 2 3 4 5] show ?thesis by simp
qed

section \<open>Properties of the stream transport\<close>

subsection \<open>Correlation ids\<close>

lemma addReponseChan_ids_eq:
  "addReponseChan_ids s rcs = map (\<lambda>i. qid s + of_nat (Suc i)) [0..<length rcs]"
proof (induction rcs arbitrary: s)
  case Nil
  then show ?case by simp
next
  case (Cons rc rcs)
  have q: "qid (snd (addReponseChan s rc)) = qid s + 1"
    by (simp add: addReponseChan_def Let_def)
  have f: "fst (addReponseChan s rc) = qid s + 1"
    by (simp add: addReponseChan_def Let_def)
  have u: "[0..<Suc (length rcs)] = 0 # map Suc [0..<length rcs]"
    by (simp add: upt_conv_Cons map_Suc_upt del: upt_Suc)
  show ?case
    by (simp only: addReponseChan_ids.simps Cons.IH q f u list.map map_map o_def length_Cons)
       (simp add: add.assoc add.commute)
qed


lemma unat_next_id:
  assumes "unat q + Suc i < 2 ^ 64"
  shows "unat ((q::uint) + of_nat (Suc i)) = unat q + Suc i"
proof -
  have "Suc i < 2 ^ LENGTH(64)" using assms by simp
  then have u: "unat (of_nat (Suc i) :: uint) = Suc i"
    by (simp only: unat_of_nat mod_less)
  have "unat q + unat (of_nat (Suc i) :: uint) < 2 ^ LENGTH(64)"
    using assms u by simp
  then have "unat (q + of_nat (Suc i)) = unat q + unat (of_nat (Suc i) :: uint)"
    by (simp only: unat_add_lem)
  with u show ?thesis by simp
qed

lemma unat_ids:
  assumes "unat (qid s) + length rcs < 2 ^ 64"
  shows "map unat (addReponseChan_ids s rcs) =
           [Suc (unat (qid s))..<Suc (unat (qid s) + length rcs)]"
proof -
  have "map unat (addReponseChan_ids s rcs) =
          map (\<lambda>i. unat (qid s) + Suc i) [0..<length rcs]"
    unfolding addReponseChan_ids_eq map_map o_def
  proof (rule map_cong [OF refl])
    fix i assume "i \<in> set [0..<length rcs]"
    then have "unat (qid s) + Suc i < 2 ^ 64" using assms by simp
    then show "unat (qid s + of_nat (Suc i)) = unat (qid s) + Suc i"
      by (rule unat_next_id)
  qed
  also have "\<dots> = [Suc (unat (qid s))..<Suc (unat (qid s) + length rcs)]"
  proof -
    have "(\<lambda>i. unat (qid s) + Suc i) = (\<lambda>i. i + Suc (unat (qid s)))" by auto
    moreover have "length rcs + Suc (unat (qid s)) = Suc (unat (qid s) + length rcs)" by simp
    ultimately show ?thesis using map_add_upt [of "Suc (unat (qid s))" "length rcs"]
      by (simp only:)
  qed
  finally show ?thesis .
qed

text \<open>
  Claim C4, amended. The calls of \<open>addReponseChan\<close> are serialised by the mutex. As long as
  the counter plus the number of calls stays below \<open>2^64\<close>, the ids handed out are the
  successors of the counter in order: strictly increasing and pairwise distinct, and on a
  new instance (counter 0) the first id is 1.
\<close>

theorem C4_ids_increasing:
  assumes "unat (qid s) + length rcs < 2 ^ 64"
  shows "map unat (addReponseChan_ids s rcs) =
           [Suc (unat (qid s))..<Suc (unat (qid s) + length rcs)] \<and>
         sorted_wrt (<) (addReponseChan_ids s rcs) \<and>
         distinct (addReponseChan_ids s rcs) \<and>
         (qid s = 0 \<longrightarrow> rcs \<noteq> [] \<longrightarrow> hd (addReponseChan_ids s rcs) = 1)"
proof -
  let ?ids = "addReponseChan_ids s rcs"
  have m: "map unat ?ids = [Suc (unat (qid s))..<Suc (unat (qid s) + length rcs)]"
    using assms by (rule unat_ids)
  have "sorted_wrt (<) (map unat ?ids)" unfolding m by (rule sorted_wrt_upt)
  moreover have "(\<lambda>x y::uint. unat x < unat y) = (<)"
    by (intro ext) (simp add: word_less_nat_alt)
  ultimately have srt: "sorted_wrt (<) ?ids"
    by (simp add: sorted_wrt_map)
  have "distinct (map unat ?ids)" unfolding m by simp
  then have dst: "distinct ?ids" by (simp add: distinct_map)
  have first: "hd ?ids = 1" if "qid s = 0" "rcs \<noteq> []"
    using that by (cases rcs) (simp_all add: addReponseChan_def Let_def)
  from m srt dst first show ?thesis by blast
qed

theorem C4_ids_increasing_witness:
  "unat (qid (NewStream quiet_conn)) + length [0, 1, 2 :: nat] < 2 ^ 64 \<and>
   addReponseChan_ids (NewStream quiet_conn) [0, 1, 2] = [1, 2, 3] \<and>
   sorted_wrt (<) (addReponseChan_ids (NewStream quiet_conn) [0, 1, 2]) \<and>
   distinct (addReponseChan_ids (NewStream quiet_conn) [0, 1, 2])"
proof -
  have h: "unat (qid (NewStream quiet_conn)) + length [0, 1, 2 :: nat] < 2 ^ 64"
    by (simp add: NewStream_def)
  have e: "addReponseChan_ids (NewStream quiet_conn) [0, 1, 2] = [1, 2, 3]"
    by (simp add: NewStream_def addReponseChan_def Let_def)
  from C4_ids_increasing [OF h] h e show ?thesis by blast
qed

text \<open>
  Claim C4 says this of every sequence of calls. The counter is a \<open>uint\<close> and \<open>s.qid++\<close>
  wraps: on a new instance call number \<open>2^64\<close> hands out 0, below the id before it, and the
  call after that hands out 1 again.
\<close>

theorem C4_wraparound_counterexample:
  "\<not> sorted_wrt (<) (addReponseChan_ids (NewStream quiet_conn) (replicate 18446744073709551616 0)) \<and>
   \<not> distinct (addReponseChan_ids (NewStream quiet_conn) (replicate 18446744073709551617 0))"
proof
  let ?ids = "addReponseChan_ids (NewStream quiet_conn) (replicate 18446744073709551616 0)"
  have len: "length ?ids = 18446744073709551616" by (simp add: addReponseChan_ids_eq)
  have a: "?ids ! 18446744073709551614 = (18446744073709551615 :: uint)"
    by (simp add: addReponseChan_ids_eq NewStream_def)
  have b: "?ids ! 18446744073709551615 = (0 :: uint)"
    by (simp add: addReponseChan_ids_eq NewStream_def)
  show "\<not> sorted_wrt (<) ?ids"
  proof
    assume "sorted_wrt (<) ?ids"
    then have "?ids ! 18446744073709551614 < ?ids ! 18446744073709551615"
      by (rule sorted_wrt_nth_less) (simp_all add: len)
    with a b show False by simp
  qed
next
  let ?ids = "addReponseChan_ids (NewStream quiet_conn) (replicate 18446744073709551617 0)"
  have len: "length ?ids = 18446744073709551617" by (simp add: addReponseChan_ids_eq)
  have a: "?ids ! 0 = (1 :: uint)"
    by (simp add: addReponseChan_ids_eq NewStream_def)
  have b: "?ids ! 18446744073709551616 = (1 :: uint)"
    by (simp add: addReponseChan_ids_eq NewStream_def)
  show "\<not> distinct ?ids"
  proof
    assume "distinct ?ids"
    then have "?ids ! 0 \<noteq> ?ids ! 18446744073709551616"
      by (simp add: distinct_conv_nth len)
    with a b show False by simp
  qed
qed

subsection \<open>Enqueueing on a finished context\<close>

text \<open>
  Claim C5. When the stream's context is already done, \<open>addQueue\<close> returns a fresh reply
  channel that holds exactly one response, carrying \<open>websocket.ErrCloseSent\<close>; the outbound
  queue, the correlator and the connection are left as they were.
\<close>

theorem C5_addQueue_on_done_context:
  assumes "ctx_err s \<noteq> None"
  shows "\<exists>s'. addQueue s msg = Ok (next_chan s) s' \<and>
           chans s' (next_chan s) =
             [\<lparr>resp_ID = 0, resp_Result = None, resp_Error = Some ErrCloseSent\<rparr>] \<and>
           queue s' = queue s \<and> queue_closed s' = queue_closed s \<and> conn s' = conn s \<and>
           qrc s' = qrc s \<and> qid s' = qid s"
  using assms by (simp add: addQueue_def make_chan_def chan_send_def)

theorem C5_addQueue_on_done_context_witness:
  "ctx_err (cancel (NewStream quiet_conn)) \<noteq> None \<and>
   (\<exists>s'. addQueue (cancel (NewStream quiet_conn))
            \<lparr>req_Method = ''GET_PROPERTY'', req_Params = [''combined''], req_ID = 0\<rparr> = Ok 0 s' \<and>
          chans s' 0 = [\<lparr>resp_ID = 0, resp_Result = None, resp_Error = Some ErrCloseSent\<rparr>] \<and>
          queue s' = [] \<and> writes (conn s') = [] \<and> qrc s' = Map.empty \<and> qid s' = 0)"
proof -
  have h: "ctx_err (cancel (NewStream quiet_conn)) \<noteq> None"
    by (simp add: cancel_def NewStream_def)
  from C5_addQueue_on_done_context [OF h,
      of "\<lparr>req_Method = ''GET_PROPERTY'', req_Params = [''combined''], req_ID = 0\<rparr>"]
  obtain s' where s': "addQueue (cancel (NewStream quiet_conn))
            \<lparr>req_Method = ''GET_PROPERTY'', req_Params = [''combined''], req_ID = 0\<rparr> =
            Ok (next_chan (cancel (NewStream quiet_conn))) s'"
    "chans s' (next_chan (cancel (NewStream quiet_conn))) =
       [\<lparr>resp_ID = 0, resp_Result = None, resp_Error = Some ErrCloseSent\<rparr>]"
    "queue s' = queue (cancel (NewStream quiet_conn))"
    "conn s' = conn (cancel (NewStream quiet_conn))"
    "qrc s' = qrc (cancel (NewStream quiet_conn))"
    "qid s' = qid (cancel (NewStream quiet_conn))"
    by blast
  have n: "next_chan (cancel (NewStream quiet_conn)) = 0" "queue (cancel (NewStream quiet_conn)) = []"
    "writes (conn (cancel (NewStream quiet_conn))) = []" "qrc (cancel (NewStream quiet_conn)) = Map.empty"
    "qid (cancel (NewStream quiet_conn)) = 0"
    by (simp_all add: cancel_def NewStream_def quiet_conn_def)
  from s' n h show ?thesis by simp
qed

subsection \<open>Shutdown and the pending requests\<close>

lemma three_queued_eq:
  "three_queued =
     \<lparr>ctx_err = None, conn = quiet_conn, handlers = [], wg = 2,
      queue = [\<lparr>req_Method = ''SUBSCRIBE'', req_Params = [''a''], req_ID = 1\<rparr>,
               \<lparr>req_Method = ''SUBSCRIBE'', req_Params = [''b''], req_ID = 2\<rparr>,
               \<lparr>req_Method = ''SUBSCRIBE'', req_Params = [''c''], req_ID = 3\<rparr>],
      queue_closed = False, qid = 3,
      qrc = [1 \<mapsto> 0, 2 \<mapsto> Suc 0, 3 \<mapsto> Suc (Suc 0)],
      chans = (\<lambda>a. []), next_chan = Suc (Suc (Suc 0)), calls = [], logged = []\<rparr>"
  by (simp add: three_queued_def state_of_def addQueue_def make_chan_def addReponseChan_def
      NewStream_def subscribe_req_def Let_def fun_upd_idem)

text \<open>
  Claim C6 says that when the transport closes with messages still queued, every such
  message's reply slot receives a closed-connection error. \<open>close\<close> drains the queue with
  \<open>sendErrResponse(msg.ID, err)\<close> where \<open>err\<close> is what \<open>s.conn.Close()\<close> returned. On a
  connection that closes cleanly that is nil: each of the three slots receives a response
  whose \<open>Error\<close> is nil, which a caller reads as success.
\<close>

theorem C6_close_delivers_nil_error:
  "close three_queued = Ok () (state_of (close three_queued)) \<and>
   Close_result (conn three_queued) = None \<and>
   chans (state_of (close three_queued)) 0 = [\<lparr>resp_ID = 1, resp_Result = None, resp_Error = None\<rparr>] \<and>
   chans (state_of (close three_queued)) 1 = [\<lparr>resp_ID = 2, resp_Result = None, resp_Error = None\<rparr>] \<and>
   chans (state_of (close three_queued)) 2 = [\<lparr>resp_ID = 3, resp_Result = None, resp_Error = None\<rparr>]"
  by (simp add: three_queued_eq close_def cancel_def log_msg_def sendErrResponse_def
      popResponseChan_def chan_send_def state_of_def quiet_conn_def Let_def)

text \<open>
  A second path of the same shutdown: with the context done and the \<open>select\<close> of
  \<open>sendQueue\<close> taking the first queued message, the check after \<open>qlimit.Take()\<close> leaves the
  loop without an answer for it. Nothing is written, \<open>close\<close> drains the other two, and the
  first slot stays registered and empty.
\<close>

lemma sendQueue_drops_dequeued_message:
  "sendQueue (\<lambda>i. True) (cancel three_queued) = Ok () (state_of (sendQueue (\<lambda>i. True) (cancel three_queued))) \<and>
   writes (conn (state_of (sendQueue (\<lambda>i. True) (cancel three_queued)))) = [] \<and>
   queue (state_of (sendQueue (\<lambda>i. True) (cancel three_queued))) = [] \<and>
   chans (state_of (sendQueue (\<lambda>i. True) (cancel three_queued))) 0 = [] \<and>
   qrc (state_of (sendQueue (\<lambda>i. True) (cancel three_queued))) 1 = Some 0"
  by (simp add: three_queued_eq sendQueue_def close_def cancel_def log_msg_def sendErrResponse_def
      popResponseChan_def chan_send_def state_of_def quiet_conn_def wg_Done_def Let_def)

subsection \<open>Subscribing and unsubscribing\<close>

lemma addQueue_handlers:
  "addQueue s msg = Ok rc s1 \<Longrightarrow> handlers s1 = handlers s"
  by (auto simp: addQueue_def make_chan_def chan_send_def addReponseChan_def Let_def
      split: if_splits)

lemma addQueue_live_queue:
  "ctx_err s = None \<Longrightarrow> addQueue s msg = Ok rc s1 \<Longrightarrow>
   queue s1 = queue s @ [msg\<lparr>req_ID := qid s + 1\<rparr>]"
  by (auto simp: addQueue_def make_chan_def addReponseChan_def Let_def split: if_splits)

lemma map_of_delete_self: "map_of (AList.delete k al) k = None"
  by (simp add: AList.delete_eq map_of_eq_None_iff image_iff)

text \<open>
  Claim C7. \<open>Subscribe\<close> on a name that is registered returns \<open>ErrStreamSubscribed\<close> and
  leaves the state, and so the existing registration, as it was. On a free name the
  SUBSCRIBE call is issued by \<open>addQueue\<close> from a state in which the handler is already
  registered: once issued, the name maps to the handler and (on a live context) the
  request is the last one in the queue. If the reply carries an error, \<open>Subscribe\<close> returns
  that error wrapped and the name is no longer registered. This holds whatever the other
  tasks of the stream do while the caller waits.
\<close>

theorem C7_Subscribe:
  "(\<forall>actual. map_of (handlers s) stream = Some actual \<longrightarrow>
      Subscribe run s stream h = Ok (Some ErrStreamSubscribed) s) \<and>
   (map_of (handlers s) stream = None \<longrightarrow>
      (\<forall>rc s1. addQueue (s\<lparr>handlers := handlers s @ [(stream, h)]\<rparr>) (subscribe_req stream) = Ok rc s1 \<longrightarrow>
         map_of (handlers s1) stream = Some h \<and>
         (ctx_err s = None \<longrightarrow> queue s1 = queue s @ [(subscribe_req stream)\<lparr>req_ID := qid s + 1\<rparr>]) \<and>
         (\<forall>resp s2 e. recv run rc s1 = Ok resp s2 \<and> resp_Error resp = Some e \<longrightarrow>
            Subscribe run s stream h =
              Ok (Some (Errorf ''stream.Subscribe'' (Some e)))
                 (s2\<lparr>handlers := AList.delete stream (handlers s2)\<rparr>) \<and>
            map_of (handlers (s2\<lparr>handlers := AList.delete stream (handlers s2)\<rparr>)) stream = None)))"
proof (intro conjI allI impI)
  fix actual assume "map_of (handlers s) stream = Some actual"
  then show "Subscribe run s stream h = Ok (Some ErrStreamSubscribed) s"
    by (simp add: Subscribe_def)
next
  fix rc s1
  assume n: "map_of (handlers s) stream = None"
    and a: "addQueue (s\<lparr>handlers := handlers s @ [(stream, h)]\<rparr>) (subscribe_req stream) = Ok rc s1"
  from addQueue_handlers [OF a] n show "map_of (handlers s1) stream = Some h"
    by (simp add: map_add_def)
next
  fix rc s1
  assume a: "addQueue (s\<lparr>handlers := handlers s @ [(stream, h)]\<rparr>) (subscribe_req stream) = Ok rc s1"
    and l: "ctx_err s = None"
  from l have "ctx_err (s\<lparr>handlers := handlers s @ [(stream, h)]\<rparr>) = None" by simp
  from addQueue_live_queue [OF this a]
  show "queue s1 = queue s @ [(subscribe_req stream)\<lparr>req_ID := qid s + 1\<rparr>]" by simp
next
  fix rc s1 resp s2 e
  assume n: "map_of (handlers s) stream = None"
    and a: "addQueue (s\<lparr>handlers := handlers s @ [(stream, h)]\<rparr>) (subscribe_req stream) = Ok rc s1"
    and r: "recv run rc s1 = Ok resp s2 \<and> resp_Error resp = Some e"
  from a have a': "addQueue (s\<lparr>handlers := handlers s @ [(stream, h)]\<rparr>)
      \<lparr>req_Method = ''SUBSCRIBE'', req_Params = [stream], req_ID = 0\<rparr> = Ok rc s1"
    by (simp add: subscribe_req_def)
  show "Subscribe run s stream h =
              Ok (Some (Errorf ''stream.Subscribe'' (Some e)))
                 (s2\<lparr>handlers := AList.delete stream (handlers s2)\<rparr>)"
    using n a' r by (simp add: Subscribe_def methodCall_def)
next
  fix s2 :: Stream
  show "map_of (handlers (s2\<lparr>handlers := AList.delete stream (handlers s2)\<rparr>)) stream = None"
    by (simp add: map_of_delete_self)
qed

text \<open>
  A second subscription to a registered name is refused; a subscription to the empty name,
  which the server answers with an error, is rolled back.
\<close>

theorem C7_Subscribe_witness:
  "Subscribe error_reply ((NewStream quiet_conn)\<lparr>handlers := [(''x'', testHandler)]\<rparr>) ''x'' panicHandler =
     Ok (Some ErrStreamSubscribed) ((NewStream quiet_conn)\<lparr>handlers := [(''x'', testHandler)]\<rparr>) \<and>
   Subscribe error_reply (NewStream quiet_conn) [] testHandler =
     Ok (Some (Errorf ''stream.Subscribe'' (Some (wsMethodError 2 ''Invalid request''))))
        (state_of (Subscribe error_reply (NewStream quiet_conn) [] testHandler)) \<and>
   handlers (state_of (Subscribe error_reply (NewStream quiet_conn) [] testHandler)) = []"
proof -
  let ?sa = "(NewStream quiet_conn)\<lparr>handlers := [(''x'', testHandler)]\<rparr>"
  have "map_of (handlers ?sa) ''x'' = Some testHandler" by simp
  with C7_Subscribe [of ?sa "''x''" error_reply panicHandler]
  have 1: "Subscribe error_reply ?sa ''x'' panicHandler = Ok (Some ErrStreamSubscribed) ?sa"
    by blast
  let ?s = "NewStream quiet_conn"
  let ?s1 = "state_of (addQueue (?s\<lparr>handlers := handlers ?s @ [([], testHandler)]\<rparr>) (subscribe_req []))"
  let ?s2 = "state_of (recv error_reply 0 ?s1)"
  let ?resp = "\<lparr>resp_ID = 1, resp_Result = None, resp_Error = Some (wsMethodError 2 ''Invalid request'')\<rparr>"
  have n: "map_of (handlers ?s) [] = None" by (simp add: NewStream_def)
  have a: "addQueue (?s\<lparr>handlers := handlers ?s @ [([], testHandler)]\<rparr>) (subscribe_req []) = Ok 0 ?s1"
    by (simp add: NewStream_def quiet_conn_def addQueue_def make_chan_def chan_send_def addReponseChan_def
        recv_def dispatch_def dispatch_body_def sendErrResponse_def popResponseChan_def log_msg_def
        wg_Done_def state_of_def Let_def error_reply_def subscribe_req_def)
  have r: "recv error_reply 0 ?s1 = Ok ?resp ?s2 \<and>
      resp_Error ?resp = Some (wsMethodError 2 ''Invalid request'')"
    by (simp add: NewStream_def quiet_conn_def addQueue_def make_chan_def chan_send_def addReponseChan_def
        recv_def dispatch_def dispatch_body_def sendErrResponse_def popResponseChan_def log_msg_def
        wg_Done_def state_of_def Let_def error_reply_def subscribe_req_def)
  from C7_Subscribe [of ?s "[]" error_reply testHandler] n a r
  have 2: "Subscribe error_reply ?s [] testHandler =
      Ok (Some (Errorf ''stream.Subscribe'' (Some (wsMethodError 2 ''Invalid request''))))
        (?s2\<lparr>handlers := AList.delete [] (handlers ?s2)\<rparr>)"
    by blast
  have h: "handlers ?s2 = [([], testHandler)]"
    by (simp add: NewStream_def quiet_conn_def addQueue_def make_chan_def chan_send_def addReponseChan_def
        recv_def dispatch_def dispatch_body_def sendErrResponse_def popResponseChan_def log_msg_def
        wg_Done_def state_of_def Let_def error_reply_def subscribe_req_def)
  from 1 2 h show ?thesis by (simp add: state_of_def)
qed

text \<open>
  Claim C8. When the UNSUBSCRIBE call is answered without an error: if the name is
  registered at that moment, the registration is removed and the handler's \<open>Done\<close> is
  called once (and \<open>Unsubscribe\<close> returns nil when \<open>Done\<close> returns); if it is not registered,
  \<open>Unsubscribe\<close> returns nil and changes nothing.
\<close>

theorem C8_Unsubscribe:
  assumes "addQueue s (unsubscribe_req stream) = Ok rc s1"
    and "recv run rc s1 = Ok resp s2"
    and "resp_Error resp = None"
  shows "(\<forall>h. map_of (handlers s2) stream = Some h \<longrightarrow>
            Unsubscribe run s stream =
              (case Done_panics h of
                 None \<Rightarrow> Ok None (s2\<lparr>handlers := AList.delete stream (handlers s2),
                                       calls := calls s2 @ [DoneCall (hid h)]\<rparr>)
               | Some x \<Rightarrow> Panic x (s2\<lparr>handlers := AList.delete stream (handlers s2),
                                        calls := calls s2 @ [DoneCall (hid h)]\<rparr>)) \<and>
            map_of (AList.delete stream (handlers s2)) stream = None) \<and>
         (map_of (handlers s2) stream = None \<longrightarrow> Unsubscribe run s stream = Ok None s2)"
proof -
  from assms(1) have a: "addQueue s \<lparr>req_Method = ''UNSUBSCRIBE'', req_Params = [stream], req_ID = 0\<rparr> = Ok rc s1"
    by (simp add: unsubscribe_req_def)
  show ?thesis
    using a assms(2,3)
    by (auto simp: Unsubscribe_def methodCall_def map_of_delete_self Let_def split: option.splits)
qed

theorem C8_Unsubscribe_witness:
  "Unsubscribe result_reply ((NewStream quiet_conn)\<lparr>handlers := [(''x'', testHandler)]\<rparr>) ''x'' =
     Ok None (state_of (Unsubscribe result_reply ((NewStream quiet_conn)\<lparr>handlers := [(''x'', testHandler)]\<rparr>) ''x'')) \<and>
   handlers (state_of (Unsubscribe result_reply ((NewStream quiet_conn)\<lparr>handlers := [(''x'', testHandler)]\<rparr>) ''x'')) = [] \<and>
   calls (state_of (Unsubscribe result_reply ((NewStream quiet_conn)\<lparr>handlers := [(''x'', testHandler)]\<rparr>) ''x'')) = [DoneCall 1] \<and>
   Unsubscribe result_reply (NewStream quiet_conn) ''x'' =
     Ok None (state_of (Unsubscribe result_reply (NewStream quiet_conn) ''x'')) \<and>
   calls (state_of (Unsubscribe result_reply (NewStream quiet_conn) ''x'')) = []"
proof -
  let ?resp = "\<lparr>resp_ID = 1, resp_Result = None, resp_Error = None\<rparr>"
  let ?sa = "(NewStream quiet_conn)\<lparr>handlers := [(''x'', testHandler)]\<rparr>"
  let ?sa1 = "state_of (addQueue ?sa (unsubscribe_req ''x''))"
  let ?sa2 = "state_of (recv result_reply 0 ?sa1)"
  have a1: "addQueue ?sa (unsubscribe_req ''x'') = Ok 0 ?sa1" by (simp add: NewStream_def quiet_conn_def addQueue_def make_chan_def chan_send_def addReponseChan_def
        recv_def dispatch_def dispatch_body_def sendErrResponse_def popResponseChan_def log_msg_def
        wg_Done_def state_of_def Let_def result_reply_def unsubscribe_req_def)
  have a2: "recv result_reply 0 ?sa1 = Ok ?resp ?sa2" by (simp add: NewStream_def quiet_conn_def addQueue_def make_chan_def chan_send_def addReponseChan_def
        recv_def dispatch_def dispatch_body_def sendErrResponse_def popResponseChan_def log_msg_def
        wg_Done_def state_of_def Let_def result_reply_def unsubscribe_req_def)
  have a3: "resp_Error ?resp = None" by simp
  have ah: "map_of (handlers ?sa2) ''x'' = Some testHandler" "handlers ?sa2 = [(''x'', testHandler)]"
    "calls ?sa2 = []"
    by (simp_all add: NewStream_def quiet_conn_def addQueue_def make_chan_def chan_send_def addReponseChan_def
        recv_def dispatch_def dispatch_body_def sendErrResponse_def popResponseChan_def log_msg_def
        wg_Done_def state_of_def Let_def result_reply_def unsubscribe_req_def)
  from C8_Unsubscribe [OF a1 a2 a3] ah(1)
  have 1: "Unsubscribe result_reply ?sa ''x'' =
      (case Done_panics testHandler of
                 None \<Rightarrow> Ok None (?sa2\<lparr>handlers := AList.delete ''x'' (handlers ?sa2),
                                       calls := calls ?sa2 @ [DoneCall (hid testHandler)]\<rparr>)
               | Some x \<Rightarrow> Panic x (?sa2\<lparr>handlers := AList.delete ''x'' (handlers ?sa2),
                                        calls := calls ?sa2 @ [DoneCall (hid testHandler)]\<rparr>))"
    by blast
  let ?s = "NewStream quiet_conn"
  let ?s1 = "state_of (addQueue ?s (unsubscribe_req ''x''))"
  let ?s2 = "state_of (recv result_reply 0 ?s1)"
  have b1: "addQueue ?s (unsubscribe_req ''x'') = Ok 0 ?s1" by (simp add: NewStream_def quiet_conn_def addQueue_def make_chan_def chan_send_def addReponseChan_def
        recv_def dispatch_def dispatch_body_def sendErrResponse_def popResponseChan_def log_msg_def
        wg_Done_def state_of_def Let_def result_reply_def unsubscribe_req_def)
  have b2: "recv result_reply 0 ?s1 = Ok ?resp ?s2" by (simp add: NewStream_def quiet_conn_def addQueue_def make_chan_def chan_send_def addReponseChan_def
        recv_def dispatch_def dispatch_body_def sendErrResponse_def popResponseChan_def log_msg_def
        wg_Done_def state_of_def Let_def result_reply_def unsubscribe_req_def)
  have bh: "map_of (handlers ?s2) ''x'' = None" "calls ?s2 = []" by (simp_all add: NewStream_def quiet_conn_def addQueue_def make_chan_def chan_send_def addReponseChan_def
        recv_def dispatch_def dispatch_body_def sendErrResponse_def popResponseChan_def log_msg_def
        wg_Done_def state_of_def Let_def result_reply_def unsubscribe_req_def)
  from C8_Unsubscribe [OF b1 b2 a3] bh(1)
  have 2: "Unsubscribe result_reply ?s ''x'' = Ok None ?s2" by blast
  show ?thesis
    unfolding 1 2 using ah(2,3) bh(2) by (simp add: state_of_def testHandler_def)
qed

subsection \<open>Panics in handlers\<close>

text \<open>
  Claim C9 says that any panic of a handler's \<open>Event\<close> is contained. The deferred \<open>recover\<close>
  of \<open>dispatch\<close> contains a panic only when its value is an \<open>error\<close>; any other value is
  logged at panic level, which panics again, in a task of its own. With the repository's
  \<open>panicHandler\<close> (\<open>panic("foo")\<close>) on channel a, the push for channel b that follows is
  never delivered and the listener does not reach its next read.
\<close>

theorem C9_repanic_counterexample:
  "listen push_unmarshal [Inr ''a'', Inr ''b'', Inl (NetError ''EOF'')]
     ((NewStream quiet_conn)\<lparr>handlers := [(''a'', panicHandler), (''b'', testHandler)]\<rparr>) =
   Panic (PanicValue ''re-panic in dispatch recover'')
     ((NewStream quiet_conn)\<lparr>handlers := [(''a'', panicHandler), (''b'', testHandler)],
        calls := [EventCall 0 ''[]''],
        logged := [[], ''re-panic in dispatch recover'']\<rparr>)"
  by (simp add: NewStream_def quiet_conn_def dispatch_def dispatch_body_def log_msg_def wg_Done_def
      Let_def panicHandler_def testHandler_def push_unmarshal_def Event_def)

text \<open>
  Claim C9, amended. When the \<open>Event\<close> of the handler of a pushed channel panics with a
  value that is an \<open>error\<close>, \<open>dispatch\<close> recovers, logs and returns; the listener goes on
  with the frames that follow exactly as from the state in which the call and the log
  entry are recorded, so later pushes reach their handlers.
\<close>

theorem C9_error_panic_recovered:
  assumes "U data = Inr msg"
    and "msg_Error msg = None"
    and "msg_ID msg = 0"
    and "msg_Stream msg \<noteq> []"
    and "map_of (handlers s) (msg_Stream msg) = Some h"
    and "Event_panics h (msg_Data msg) = Some (PanicError e)"
  shows "dispatch U (s\<lparr>wg := Suc (wg s)\<rparr>) data =
           Ok () (s\<lparr>calls := calls s @ [EventCall (hid h) (msg_Data msg)],
                   logged := logged s @ [[], ''dispatch panic recover'']\<rparr>) \<and>
         listen U (Inr data # rest) s =
           listen U rest (s\<lparr>calls := calls s @ [EventCall (hid h) (msg_Data msg)],
                           logged := logged s @ [[], ''dispatch panic recover'']\<rparr>)"
proof -
  have d: "dispatch U (s\<lparr>wg := Suc (wg s)\<rparr>) data =
           Ok () (s\<lparr>calls := calls s @ [EventCall (hid h) (msg_Data msg)],
                   logged := logged s @ [[], ''dispatch panic recover'']\<rparr>)"
    using assms
    by (simp add: dispatch_def dispatch_body_def Event_def log_msg_def wg_Done_def)
  then show ?thesis by simp
qed

theorem C9_error_panic_recovered_witness:
  "listen push_unmarshal [Inr ''a'', Inr ''b'', Inl (NetError ''EOF'')]
     ((NewStream quiet_conn)\<lparr>handlers := [(''a'', failingHandler), (''b'', testHandler)]\<rparr>) =
   Ok () ((NewStream quiet_conn)\<lparr>handlers := [(''a'', failingHandler), (''b'', testHandler)],
        ctx_err := Some ContextCanceled, wg := 1,
        calls := [EventCall 2 ''[]'', EventCall 1 ''[]''],
        logged := [[], ''dispatch panic recover'', [], ''websocket receive'']\<rparr>)"
proof -
  let ?s = "(NewStream quiet_conn)\<lparr>handlers := [(''a'', failingHandler), (''b'', testHandler)]\<rparr>"
  let ?msg = "\<lparr>msg_Error = None, msg_ID = 0, msg_Result = None, msg_Stream = ''a'', msg_Data = ''[]''\<rparr>"
  have 1: "push_unmarshal ''a'' = Inr ?msg" by (simp add: push_unmarshal_def)
  have 2: "msg_Error ?msg = None" and 3: "msg_ID ?msg = 0" and 4: "msg_Stream ?msg \<noteq> []" by simp_all
  have 5: "map_of (handlers ?s) (msg_Stream ?msg) = Some failingHandler" by simp
  have 6: "Event_panics failingHandler (msg_Data ?msg) = Some (PanicError (RuntimeError ''index out of range''))"
    by (simp add: failingHandler_def)
  from C9_error_panic_recovered [where U = push_unmarshal and data = "''a''"
      and rest = "[Inr ''b'', Inl (NetError ''EOF'')]", OF 1 2 3 4 5 6]
  have "listen push_unmarshal [Inr ''a'', Inr ''b'', Inl (NetError ''EOF'')] ?s =
      listen push_unmarshal [Inr ''b'', Inl (NetError ''EOF'')]
        (?s\<lparr>calls := calls ?s @ [EventCall (hid failingHandler) (msg_Data ?msg)],
             logged := logged ?s @ [[], ''dispatch panic recover'']\<rparr>)"
    by blast
  then show ?thesis
    by (simp add: NewStream_def quiet_conn_def dispatch_def dispatch_body_def log_msg_def wg_Done_def
        Let_def failingHandler_def testHandler_def push_unmarshal_def Event_def cancel_def)
qed

end
